theory Spec2Isabelle
  imports Main "HOL-Library.AList"
begin

section \<open>Python values and exceptions\<close>

text \<open>
  The handlers of \<^verbatim>\<open>server.py\<close> work on what \<^verbatim>\<open>response.json()\<close> returns and on their own
  arguments. A Python value is one of the seven kinds a JSON document decodes to. A dict is
  an association list in insertion order; \<^verbatim>\<open>AList.update\<close> is the assignment \<^verbatim>\<open>d[k] = v\<close>
  (replace in place, or append). A float is identified by the text Python prints for it,
  which is all the handlers do with one, apart from testing it for zero. A string is a list
  of characters, one \<open>char\<close> for each character of the Python string.
\<close>

datatype pyval =
    PNone
  | PBool bool
  | PInt int
  | PFloat string
  | PStr string
  | PList "pyval list"
  | PDict "(string \<times> pyval) list"

text \<open>
  The exceptions the handlers can meet, each with the text \<^verbatim>\<open>str(e)\<close> gives. An
  \<open>HTTPStatusError\<close> also carries the status code of \<^verbatim>\<open>e.response\<close>, and it is the only
  instance of \<^verbatim>\<open>httpx.HTTPStatusError\<close>. The first six are subclasses of \<^verbatim>\<open>Exception\<close>.
  The last two are not: \<^verbatim>\<open>asyncio.CancelledError\<close> and \<^verbatim>\<open>KeyboardInterrupt\<close> derive from
  \<^verbatim>\<open>BaseException\<close> only, and a clause \<^verbatim>\<open>except Exception\<close> does not catch them.
\<close>

datatype exn =
    ValueError string
  | AttributeError string
  | TypeError string
  | TransportError string
  | JSONDecodeError string
  | HTTPStatusError int string
  | CancelledError
  | KeyboardInterrupt

fun str_exn :: "exn \<Rightarrow> string" where
  "str_exn (ValueError m) = m"
| "str_exn (AttributeError m) = m"
| "str_exn (TypeError m) = m"
| "str_exn (TransportError m) = m"
| "str_exn (JSONDecodeError m) = m"
| "str_exn (HTTPStatusError c m) = m"
| "str_exn CancelledError = []"
| "str_exn KeyboardInterrupt = []"

text \<open>\<^verbatim>\<open>isinstance(e, Exception)\<close>.\<close>

fun is_Exception :: "exn \<Rightarrow> bool" where
  "is_Exception CancelledError = False"
| "is_Exception KeyboardInterrupt = False"
| "is_Exception e = True"

text \<open>Sequencing of steps that may raise: the first exception ends the computation.\<close>

definition and_then :: "exn + 'a \<Rightarrow> ('a \<Rightarrow> exn + 'b) \<Rightarrow> exn + 'b" where
  "and_then m f = (case m of Inl e \<Rightarrow> Inl e | Inr x \<Rightarrow> f x)"

subsection \<open>Truthiness, type names, \<^verbatim>\<open>str\<close>\<close>

fun truthy :: "pyval \<Rightarrow> bool" where
  "truthy PNone = False"
| "truthy (PBool b) = b"
| "truthy (PInt i) = (i \<noteq> 0)"
| "truthy (PFloat t) = (t \<noteq> ''0.0'' \<and> t \<noteq> ''-0.0'')"
| "truthy (PStr s) = (s \<noteq> [])"
| "truthy (PList xs) = (xs \<noteq> [])"
| "truthy (PDict d) = (d \<noteq> [])"

text \<open>Truthiness of an \<^verbatim>\<open>Optional[str]\<close>: \<^verbatim>\<open>None\<close> and the empty string are false.\<close>

fun truthy_opt :: "string option \<Rightarrow> bool" where
  "truthy_opt None = False"
| "truthy_opt (Some s) = (s \<noteq> [])"

fun type_name :: "pyval \<Rightarrow> string" where
  "type_name PNone = ''NoneType''"
| "type_name (PBool b) = ''bool''"
| "type_name (PInt i) = ''int''"
| "type_name (PFloat t) = ''float''"
| "type_name (PStr s) = ''str''"
| "type_name (PList xs) = ''list''"
| "type_name (PDict d) = ''dict''"

definition digit_char :: "nat \<Rightarrow> char" where
  "digit_char d = char_of (48 + d)"

function str_nat :: "nat \<Rightarrow> string" where
  "str_nat n = (if n < 10 then [digit_char n] else str_nat (n div 10) @ [digit_char (n mod 10)])"
  by pat_completeness auto
termination
  by (relation "measure (\<lambda>n. n)") auto

declare str_nat.simps [simp del]

definition str_int :: "int \<Rightarrow> string" where
  "str_int i = (if i < 0 then CHR ''-'' # str_nat (nat (- i)) else str_nat (nat i))"

text \<open>
  What an f-string puts in for a value. For a list or a dict Python prints the \<^verbatim>\<open>repr\<close> of
  the elements, with quoting and escaping rules that belong to the interpreter; that
  function is a parameter here.
\<close>

fun py_str :: "(pyval \<Rightarrow> string) \<Rightarrow> pyval \<Rightarrow> string" where
  "py_str r PNone = ''None''"
| "py_str r (PBool b) = (if b then ''True'' else ''False'')"
| "py_str r (PInt i) = str_int i"
| "py_str r (PFloat t) = t"
| "py_str r (PStr s) = s"
| "py_str r (PList xs) = r (PList xs)"
| "py_str r (PDict d) = r (PDict d)"

subsection \<open>Methods of the values\<close>

text \<open>\<^verbatim>\<open>d.get(key, default)\<close> on a dict.\<close>

definition dict_get :: "(string \<times> pyval) list \<Rightarrow> string \<Rightarrow> pyval \<Rightarrow> pyval" where
  "dict_get d k dflt = (case map_of d k of None \<Rightarrow> dflt | Some v \<Rightarrow> v)"

text \<open>\<^verbatim>\<open>x.get(key, default)\<close> on any value: only a dict has the method.\<close>

definition py_get :: "pyval \<Rightarrow> string \<Rightarrow> pyval \<Rightarrow> exn + pyval" where
  "py_get x k dflt =
     (case x of
        PDict d \<Rightarrow> Inr (dict_get d k dflt)
      | _ \<Rightarrow> Inl (AttributeError
                 ([CHR 0x27] @ type_name x @ [CHR 0x27] @ '' object has no attribute ''
                  @ [CHR 0x27] @ ''get'' @ [CHR 0x27])))"

text \<open>\<^verbatim>\<open>len(x)\<close>.\<close>

definition py_len :: "pyval \<Rightarrow> exn + nat" where
  "py_len x =
     (case x of
        PStr s \<Rightarrow> Inr (length s)
      | PList xs \<Rightarrow> Inr (length xs)
      | PDict d \<Rightarrow> Inr (length d)
      | _ \<Rightarrow> Inl (TypeError
                 (''object of type '' @ [CHR 0x27] @ type_name x @ [CHR 0x27]
                  @ '' has no len()'')))"

text \<open>
  The elements a \<^verbatim>\<open>for\<close> loop visits: the items of a list, the characters of a string,
  the keys of a dict.
\<close>

definition py_iter :: "pyval \<Rightarrow> exn + pyval list" where
  "py_iter x =
     (case x of
        PStr s \<Rightarrow> Inr (map (\<lambda>c. PStr [c]) s)
      | PList xs \<Rightarrow> Inr xs
      | PDict d \<Rightarrow> Inr (map (\<lambda>kv. PStr (fst kv)) d)
      | _ \<Rightarrow> Inl (TypeError
                 ([CHR 0x27] @ type_name x @ [CHR 0x27] @ '' object is not iterable'')))"

text \<open>\<^verbatim>\<open>sep.join(x)\<close>: every element must be a string.\<close>

fun join_items :: "string \<Rightarrow> nat \<Rightarrow> pyval list \<Rightarrow> exn + string" where
  "join_items sep i [] = Inr []"
| "join_items sep i (PStr s # rest) =
     and_then (join_items sep (Suc i) rest)
       (\<lambda>t. Inr (if rest = [] then s else s @ sep @ t))"
| "join_items sep i (x # rest) =
     Inl (TypeError (''sequence item '' @ str_nat i @ '': expected str instance, ''
                     @ type_name x @ '' found''))"

definition py_join :: "string \<Rightarrow> pyval \<Rightarrow> exn + string" where
  "py_join sep x =
     (case py_iter x of
        Inl e \<Rightarrow> Inl (TypeError ''can only join an iterable'')
      | Inr xs \<Rightarrow> join_items sep 0 xs)"

section \<open>The API client\<close>

text \<open>
  One outbound HTTP call, as \<^verbatim>\<open>httpx\<close> is asked to make it: the method, the URL, the
  headers, the query parameters (\<^verbatim>\<open>params=\<close>), the JSON body (\<^verbatim>\<open>json=\<close>) and the timeout
  in seconds.
\<close>

datatype http_method = GET | PUT

record request =
  req_method :: http_method
  req_url :: string
  req_headers :: "(string \<times> string) list"
  req_params :: "(string \<times> pyval) list option"
  req_json :: "(string \<times> pyval) list option"
  req_timeout :: nat

text \<open>
  What comes back: the status code, the text \<^verbatim>\<open>raise_for_status\<close> gives its
  \<^verbatim>\<open>HTTPStatusError\<close> for this response, and what \<^verbatim>\<open>response.json()\<close> does (the decoded
  document, or the text of the decoding error). A call can also fail before any response
  arrives (connection refused, timeout), and the \<^verbatim>\<open>await\<close> of the call is where the task
  can be cancelled or interrupted from outside.
\<close>

record response =
  status_code :: int
  error_text :: string
  json_content :: "string + pyval"

datatype reply = Failed string | Reply response | Cancelled | Interrupted

text \<open>
  What a handler takes from outside: the environment variable read at import, the upstream
  service, and the interpreter's \<^verbatim>\<open>repr\<close> of lists and dicts.
\<close>

record runtime =
  PLEO_API_KEY :: "string option"
  upstream :: "request \<Rightarrow> reply"
  py_repr :: "pyval \<Rightarrow> string"

text \<open>What a call leaves behind: the HTTP calls it attempted and the lines it logged.\<close>

datatype event = HttpCall request | LogWarning string | LogError string

type_synonym 'a run = "event list \<times> (exn + 'a)"

definition PLEO_API_BASE_URL :: string where
  "PLEO_API_BASE_URL = ''https://openapi.pleo.io/v1''"

text \<open>The module's start: a warning when the key is not set, and nothing else.\<close>

definition module_init :: "runtime \<Rightarrow> event list" where
  "module_init rt =
     (if \<not> truthy_opt (PLEO_API_KEY rt)
      then [LogWarning ''PLEO_API_KEY environment variable not set'']
      else [])"

record PleoAPIClient =
  api_key :: string
  base_url :: string
  headers :: "(string \<times> string) list"

definition new_client :: "string \<Rightarrow> PleoAPIClient" where
  "new_client k =
     \<lparr> api_key = k,
       base_url = PLEO_API_BASE_URL,
       headers = [(''Authorization'', ''Bearer '' @ k),
                  (''Accept'', ''application/json''),
                  (''Content-Type'', ''application/json'')] \<rparr>"

text \<open>
  \<^verbatim>\<open>response.raise_for_status()\<close>: a status outside 200..299 raises, and the error
  carries the response.
\<close>

definition raise_for_status :: "response \<Rightarrow> exn + unit" where
  "raise_for_status r =
     (if 200 \<le> status_code r \<and> status_code r \<le> 299 then Inr ()
      else Inl (HTTPStatusError (status_code r) (error_text r)))"

definition response_json :: "response \<Rightarrow> exn + pyval" where
  "response_json r = (case json_content r of Inl m \<Rightarrow> Inl (JSONDecodeError m) | Inr v \<Rightarrow> Inr v)"

text \<open>The common part of \<^verbatim>\<open>get\<close> and \<^verbatim>\<open>put\<close>: send, check the status, decode.\<close>

definition perform :: "runtime \<Rightarrow> request \<Rightarrow> pyval run" where
  "perform rt req =
     ([HttpCall req],
      (case upstream rt req of
         Failed m \<Rightarrow> Inl (TransportError m)
       | Reply r \<Rightarrow> and_then (raise_for_status r) (\<lambda>u. response_json r)
       | Cancelled \<Rightarrow> Inl CancelledError
       | Interrupted \<Rightarrow> Inl KeyboardInterrupt))"

definition get_request ::
  "PleoAPIClient \<Rightarrow> string \<Rightarrow> (string \<times> pyval) list option \<Rightarrow> request" where
  "get_request client endpoint params =
     \<lparr> req_method = GET, req_url = base_url client @ endpoint,
       req_headers = headers client, req_params = params,
       req_json = None, req_timeout = 30 \<rparr>"

definition put_request ::
  "PleoAPIClient \<Rightarrow> string \<Rightarrow> (string \<times> pyval) list \<Rightarrow> request" where
  "put_request client endpoint data =
     \<lparr> req_method = PUT, req_url = base_url client @ endpoint,
       req_headers = headers client, req_params = None,
       req_json = Some data, req_timeout = 30 \<rparr>"

definition client_get ::
  "runtime \<Rightarrow> PleoAPIClient \<Rightarrow> string \<Rightarrow> (string \<times> pyval) list option \<Rightarrow> pyval run" where
  "client_get rt client endpoint params = perform rt (get_request client endpoint params)"

definition client_put ::
  "runtime \<Rightarrow> PleoAPIClient \<Rightarrow> string \<Rightarrow> (string \<times> pyval) list \<Rightarrow> pyval run" where
  "client_put rt client endpoint data = perform rt (put_request client endpoint data)"

definition get_client :: "runtime \<Rightarrow> exn + PleoAPIClient" where
  "get_client rt =
     (case PLEO_API_KEY rt of
        None \<Rightarrow> Inl (ValueError ''PLEO_API_KEY environment variable is not set'')
      | Some k \<Rightarrow>
          if k = [] then Inl (ValueError ''PLEO_API_KEY environment variable is not set'')
          else Inr (new_client k))"

text \<open>
  The \<^verbatim>\<open>except\<close> clauses. \<open>except_exception\<close> is the clause every handler ends with
  (\<^verbatim>\<open>except Exception as e\<close>: log, return the text; what is not an \<^verbatim>\<open>Exception\<close> goes
  on to the caller). \<open>except_status\<close> is the clause four
  handlers put before it (\<^verbatim>\<open>except httpx.HTTPStatusError as e\<close>): a 404 returns the
  handler's own not-found text, any other status is logged and returned as its text.
\<close>

definition except_exception :: "string \<Rightarrow> string run \<Rightarrow> string run" where
  "except_exception what body =
     (case body of
        (evs, Inr s) \<Rightarrow> (evs, Inr s)
      | (evs, Inl e) \<Rightarrow>
          if is_Exception e then
            (evs @ [LogError (''Error '' @ what @ '': '' @ str_exn e)],
             Inr (''Error: '' @ str_exn e))
          else (evs, Inl e))"

definition except_status :: "string \<Rightarrow> string \<Rightarrow> string run \<Rightarrow> string run" where
  "except_status what not_found body =
     (case body of
        (evs, Inl (HTTPStatusError c m)) \<Rightarrow>
          if c = 404 then (evs, Inr not_found)
          else (evs @ [LogError (''HTTP error '' @ what @ '': '' @ m)], Inr (''Error: '' @ m))
      | _ \<Rightarrow> body)"

text \<open>The HTTP calls among the events of a run.\<close>

fun http_calls :: "event list \<Rightarrow> request list" where
  "http_calls [] = []"
| "http_calls (HttpCall r # es) = r # http_calls es"
| "http_calls (e # es) = http_calls es"

text \<open>Sequencing of steps that also leave events; a step without events.\<close>

definition run_then :: "'a run \<Rightarrow> ('a \<Rightarrow> 'b run) \<Rightarrow> 'b run" where
  "run_then m f =
     (case m of
        (evs, Inl e) \<Rightarrow> (evs, Inl e)
      | (evs, Inr x) \<Rightarrow> (case f x of (evs', res) \<Rightarrow> (evs @ evs', res)))"

definition no_io :: "exn + 'a \<Rightarrow> 'a run" where
  "no_io m = ([], m)"

section \<open>The tool handlers\<close>

text \<open>
  \<^verbatim>\<open>{x.get(key, default)}\<close> inside an f-string: the lookup, then the text of what it found.
\<close>

definition fmt_get :: "(pyval \<Rightarrow> string) \<Rightarrow> pyval \<Rightarrow> string \<Rightarrow> pyval \<Rightarrow> exn + string" where
  "fmt_get r x k dflt = and_then (py_get x k dflt) (\<lambda>v. Inr (py_str r v))"

subsection \<open>\<^verbatim>\<open>list_expenses\<close>\<close>

text \<open>\<^verbatim>\<open>if arg: params[key] = arg\<close>.\<close>

fun set_if_truthy ::
  "string \<Rightarrow> string option \<Rightarrow> (string \<times> pyval) list \<Rightarrow> (string \<times> pyval) list" where
  "set_if_truthy k None d = d"
| "set_if_truthy k (Some s) d = (if s \<noteq> [] then AList.update k (PStr s) d else d)"

definition list_expenses_params ::
  "string option \<Rightarrow> string option \<Rightarrow> string option \<Rightarrow> string option \<Rightarrow> int
     \<Rightarrow> (string \<times> pyval) list" where
  "list_expenses_params status expense_type from_date to_date limit =
     set_if_truthy ''performedAtTo'' to_date
       (set_if_truthy ''performedAtFrom'' from_date
         (set_if_truthy ''type'' expense_type
           (set_if_truthy ''status'' status
             [(''limit'', PInt (min limit 100))])))"

text \<open>The body of the loop: the six lines one expense adds to the summary.\<close>

definition expense_lines :: "(pyval \<Rightarrow> string) \<Rightarrow> pyval \<Rightarrow> exn + string" where
  "expense_lines r expense =
     and_then (py_get expense ''id'' (PStr ''N/A'')) (\<lambda>expense_id.
     and_then (py_get expense ''performedAt'' (PStr ''N/A'')) (\<lambda>performed_at.
     and_then (py_get expense ''amountOriginal'' (PDict [])) (\<lambda>amount.
     and_then (py_get amount ''value'' (PInt 0)) (\<lambda>val.
     and_then (py_get amount ''currency'' (PStr ''N/A'')) (\<lambda>currency.
     and_then (py_get expense ''note'' (PStr ''No note'')) (\<lambda>note.
     and_then (py_get expense ''type'' (PStr ''N/A'')) (\<lambda>exp_type.
     and_then (py_get expense ''status'' (PStr ''N/A'')) (\<lambda>exp_status.
       Inr (''- ID: '' @ py_str r expense_id @ ''\<newline>''
            @ ''  Date: '' @ py_str r performed_at @ ''\<newline>''
            @ ''  Amount: '' @ py_str r val @ '' '' @ py_str r currency @ ''\<newline>''
            @ ''  Type: '' @ py_str r exp_type @ ''\<newline>''
            @ ''  Status: '' @ py_str r exp_status @ ''\<newline>''
            @ ''  Note: '' @ py_str r note @ ''\<newline>\<newline>'')))))))))"

fun expenses_loop :: "(pyval \<Rightarrow> string) \<Rightarrow> string \<Rightarrow> pyval list \<Rightarrow> exn + string" where
  "expenses_loop r summary [] = Inr summary"
| "expenses_loop r summary (expense # rest) =
     and_then (expense_lines r expense) (\<lambda>ls. expenses_loop r (summary @ ls) rest)"

definition format_expenses :: "(pyval \<Rightarrow> string) \<Rightarrow> pyval \<Rightarrow> exn + string" where
  "format_expenses r result =
     and_then (py_get result ''data'' (PList [])) (\<lambda>expenses.
       if \<not> truthy expenses then Inr ''No expenses found matching the criteria.''
       else
         and_then (py_len expenses) (\<lambda>n.
         and_then (py_iter expenses) (\<lambda>items.
           expenses_loop r (''Found '' @ str_nat n @ '' expense(s):\<newline>\<newline>'') items)))"

text \<open>The \<^verbatim>\<open>try\<close> block, and the handler: the block under its \<^verbatim>\<open>except\<close> clause.\<close>

definition list_expenses_try ::
  "runtime \<Rightarrow> string option \<Rightarrow> string option \<Rightarrow> string option \<Rightarrow> string option \<Rightarrow> int
     \<Rightarrow> string run" where
  "list_expenses_try rt status expense_type from_date to_date limit =
     run_then (no_io (get_client rt)) (\<lambda>client.
     run_then (client_get rt client ''/expenses''
                 (Some (list_expenses_params status expense_type from_date to_date limit)))
       (\<lambda>result. no_io (format_expenses (py_repr rt) result)))"

definition list_expenses ::
  "runtime \<Rightarrow> string option \<Rightarrow> string option \<Rightarrow> string option \<Rightarrow> string option \<Rightarrow> int
     \<Rightarrow> string run" where
  "list_expenses rt status expense_type from_date to_date limit =
     except_exception ''listing expenses''
       (list_expenses_try rt status expense_type from_date to_date limit)"

subsection \<open>\<^verbatim>\<open>get_expense\<close>\<close>

text \<open>The line that is added only \<^verbatim>\<open>if amount_settled:\<close>.\<close>

definition settled_line :: "(pyval \<Rightarrow> string) \<Rightarrow> pyval \<Rightarrow> exn + string" where
  "settled_line r amount_settled =
     (if truthy amount_settled then
        and_then (fmt_get r amount_settled ''value'' (PInt 0)) (\<lambda>v.
        and_then (fmt_get r amount_settled ''currency'' (PStr ''N/A'')) (\<lambda>c.
          Inr (''Settled Amount: '' @ v @ '' '' @ c @ ''\<newline>'')))
      else Inr [])"

text \<open>\<^verbatim>\<open>', '.join(receipt_ids) if receipt_ids else 'None'\<close>.\<close>

definition receipt_ids_text :: "pyval \<Rightarrow> exn + string" where
  "receipt_ids_text receipt_ids =
     (if truthy receipt_ids then py_join '', '' receipt_ids else Inr ''None'')"

text \<open>The lines added \<^verbatim>\<open>if merchant:\<close> and \<^verbatim>\<open>if card_transaction:\<close>.\<close>

definition merchant_line :: "(pyval \<Rightarrow> string) \<Rightarrow> pyval \<Rightarrow> exn + string" where
  "merchant_line r merchant =
     (if truthy merchant then
        and_then (fmt_get r merchant ''name'' (PStr ''N/A'')) (\<lambda>n.
        and_then (fmt_get r merchant ''id'' (PStr ''N/A'')) (\<lambda>i.
          Inr (''  Merchant: '' @ n @ '' (ID: '' @ i @ '')\<newline>'')))
      else Inr [])"

definition card_transaction_lines :: "(pyval \<Rightarrow> string) \<Rightarrow> pyval \<Rightarrow> exn + string" where
  "card_transaction_lines r card_transaction =
     (if truthy card_transaction then
        and_then (fmt_get r card_transaction ''state'' (PStr ''N/A'')) (\<lambda>st.
        and_then (fmt_get r card_transaction ''authorizedAt'' (PStr ''N/A'')) (\<lambda>au.
        and_then (fmt_get r card_transaction ''settledAt'' (PStr ''N/A'')) (\<lambda>se.
        and_then (py_get card_transaction ''merchant'' (PDict [])) (\<lambda>merchant.
        and_then (merchant_line r merchant) (\<lambda>ml.
          Inr (''\<newline>Card Transaction:\<newline>''
               @ ''  State: '' @ st @ ''\<newline>''
               @ ''  Authorized At: '' @ au @ ''\<newline>''
               @ ''  Settled At: '' @ se @ ''\<newline>''
               @ ml))))))
      else Inr [])"

definition format_expense :: "(pyval \<Rightarrow> string) \<Rightarrow> pyval \<Rightarrow> exn + string" where
  "format_expense r expense =
     and_then (fmt_get r expense ''id'' (PStr ''N/A'')) (\<lambda>f_id.
     and_then (fmt_get r expense ''employeeId'' (PStr ''N/A'')) (\<lambda>f_employee.
     and_then (fmt_get r expense ''employeeCode'' (PStr ''N/A'')) (\<lambda>f_code.
     and_then (fmt_get r expense ''departmentId'' (PStr ''N/A'')) (\<lambda>f_department.
     and_then (fmt_get r expense ''performedAt'' (PStr ''N/A'')) (\<lambda>f_performed.
     and_then (py_get expense ''amountOriginal'' (PDict [])) (\<lambda>amount_original.
     and_then (fmt_get r amount_original ''value'' (PInt 0)) (\<lambda>f_value.
     and_then (fmt_get r amount_original ''currency'' (PStr ''N/A'')) (\<lambda>f_currency.
     and_then (py_get expense ''amountSettled'' (PDict [])) (\<lambda>amount_settled.
     and_then (settled_line r amount_settled) (\<lambda>l_settled.
     and_then (fmt_get r expense ''note'' (PStr ''No note'')) (\<lambda>f_note.
     and_then (fmt_get r expense ''type'' (PStr ''N/A'')) (\<lambda>f_type.
     and_then (fmt_get r expense ''status'' (PStr ''N/A'')) (\<lambda>f_status.
     and_then (fmt_get r expense ''accountId'' (PStr ''N/A'')) (\<lambda>f_account.
     and_then (fmt_get r expense ''taxCodeId'' (PStr ''N/A'')) (\<lambda>f_tax.
     and_then (py_get expense ''receiptIds'' (PList [])) (\<lambda>receipt_ids.
     and_then (receipt_ids_text receipt_ids) (\<lambda>f_receipts.
     and_then (py_get expense ''cardTransaction'' (PDict [])) (\<lambda>card_transaction.
     and_then (card_transaction_lines r card_transaction) (\<lambda>l_card.
     and_then (fmt_get r expense ''createdAt'' (PStr ''N/A'')) (\<lambda>f_created.
     and_then (fmt_get r expense ''updatedAt'' (PStr ''N/A'')) (\<lambda>f_updated.
       Inr (''Expense Details:\<newline>\<newline>''
            @ ''ID: '' @ f_id @ ''\<newline>''
            @ ''Employee ID: '' @ f_employee @ ''\<newline>''
            @ ''Employee Code: '' @ f_code @ ''\<newline>''
            @ ''Department ID: '' @ f_department @ ''\<newline>''
            @ ''Performed At: '' @ f_performed @ ''\<newline>''
            @ ''Original Amount: '' @ f_value @ '' '' @ f_currency @ ''\<newline>''
            @ l_settled
            @ ''Note: '' @ f_note @ ''\<newline>''
            @ ''Type: '' @ f_type @ ''\<newline>''
            @ ''Status: '' @ f_status @ ''\<newline>''
            @ ''Account ID: '' @ f_account @ ''\<newline>''
            @ ''Tax Code ID: '' @ f_tax @ ''\<newline>''
            @ ''Receipt IDs: '' @ f_receipts @ ''\<newline>''
            @ l_card
            @ ''\<newline>Created At: '' @ f_created @ ''\<newline>''
            @ ''Updated At: '' @ f_updated @ ''\<newline>''))))))))))))))))))))))"

definition expense_not_found :: "string \<Rightarrow> string" where
  "expense_not_found expense_id = ''Error: Expense with ID '' @ expense_id @ '' not found''"

definition get_expense_try :: "runtime \<Rightarrow> string \<Rightarrow> string run" where
  "get_expense_try rt expense_id =
     run_then (no_io (get_client rt)) (\<lambda>client.
     run_then (client_get rt client (''/expenses/'' @ expense_id) None)
       (\<lambda>expense. no_io (format_expense (py_repr rt) expense)))"

definition get_expense :: "runtime \<Rightarrow> string \<Rightarrow> string run" where
  "get_expense rt expense_id =
     except_exception ''getting expense''
       (except_status ''getting expense'' (expense_not_found expense_id)
         (get_expense_try rt expense_id))"

subsection \<open>\<^verbatim>\<open>update_expense\<close>\<close>

text \<open>\<^verbatim>\<open>if arg is not None: update_data[key] = arg\<close>.\<close>

fun set_if_given ::
  "string \<Rightarrow> string option \<Rightarrow> (string \<times> pyval) list \<Rightarrow> (string \<times> pyval) list" where
  "set_if_given k None d = d"
| "set_if_given k (Some s) d = AList.update k (PStr s) d"

definition update_data ::
  "string option \<Rightarrow> string option \<Rightarrow> string option \<Rightarrow> (string \<times> pyval) list" where
  "update_data note account_id tax_code_id =
     set_if_given ''taxCodeId'' tax_code_id
       (set_if_given ''accountId'' account_id
         (set_if_given ''note'' note []))"

definition update_expense_try ::
  "runtime \<Rightarrow> string \<Rightarrow> string option \<Rightarrow> string option \<Rightarrow> string option \<Rightarrow> string run" where
  "update_expense_try rt expense_id note account_id tax_code_id =
     run_then (no_io (get_client rt)) (\<lambda>client.
       if update_data note account_id tax_code_id = [] then
         no_io (Inr ''Error: No update fields provided. Please specify at least one field to update.'')
       else
         run_then (client_put rt client (''/expenses/'' @ expense_id)
                     (update_data note account_id tax_code_id))
           (\<lambda>result. no_io (Inr (''Successfully updated expense '' @ expense_id))))"

definition update_expense ::
  "runtime \<Rightarrow> string \<Rightarrow> string option \<Rightarrow> string option \<Rightarrow> string option \<Rightarrow> string run" where
  "update_expense rt expense_id note account_id tax_code_id =
     except_exception ''updating expense''
       (except_status ''updating expense'' (expense_not_found expense_id)
         (update_expense_try rt expense_id note account_id tax_code_id))"

subsection \<open>\<^verbatim>\<open>get_expense_receipts\<close> and \<^verbatim>\<open>get_expense_receipt\<close>\<close>

definition receipt_lines :: "(pyval \<Rightarrow> string) \<Rightarrow> pyval \<Rightarrow> exn + string" where
  "receipt_lines r receipt =
     and_then (py_get receipt ''id'' (PStr ''N/A'')) (\<lambda>receipt_id.
     and_then (py_get receipt ''name'' (PStr ''N/A'')) (\<lambda>name.
     and_then (py_get receipt ''mimeType'' (PStr ''N/A'')) (\<lambda>mime_type.
     and_then (py_get receipt ''size'' (PInt 0)) (\<lambda>sz.
     and_then (py_get receipt ''url'' (PStr ''N/A'')) (\<lambda>url.
       Inr (''- Receipt ID: '' @ py_str r receipt_id @ ''\<newline>''
            @ ''  Name: '' @ py_str r name @ ''\<newline>''
            @ ''  Type: '' @ py_str r mime_type @ ''\<newline>''
            @ ''  Size: '' @ py_str r sz @ '' KB\<newline>''
            @ ''  Download URL: '' @ py_str r url @ ''\<newline>''
            @ ''  (URL valid for 15 hours)\<newline>\<newline>''))))))"

fun receipts_loop :: "(pyval \<Rightarrow> string) \<Rightarrow> string \<Rightarrow> pyval list \<Rightarrow> exn + string" where
  "receipts_loop r result [] = Inr result"
| "receipts_loop r result (receipt # rest) =
     and_then (receipt_lines r receipt) (\<lambda>ls. receipts_loop r (result @ ls) rest)"

definition format_receipts :: "(pyval \<Rightarrow> string) \<Rightarrow> string \<Rightarrow> pyval \<Rightarrow> exn + string" where
  "format_receipts r expense_id receipts =
     (if \<not> truthy receipts then Inr (''No receipts found for expense '' @ expense_id)
      else
        and_then (py_iter receipts) (\<lambda>items.
          receipts_loop r (''Receipts for expense '' @ expense_id @ '':\<newline>\<newline>'') items))"

definition get_expense_receipts_try :: "runtime \<Rightarrow> string \<Rightarrow> string run" where
  "get_expense_receipts_try rt expense_id =
     run_then (no_io (get_client rt)) (\<lambda>client.
     run_then (client_get rt client (''/expenses/'' @ expense_id @ ''/receipts'') None)
       (\<lambda>receipts. no_io (format_receipts (py_repr rt) expense_id receipts)))"

definition get_expense_receipts :: "runtime \<Rightarrow> string \<Rightarrow> string run" where
  "get_expense_receipts rt expense_id =
     except_exception ''getting receipts''
       (except_status ''getting receipts'' (expense_not_found expense_id)
         (get_expense_receipts_try rt expense_id))"

definition format_receipt :: "(pyval \<Rightarrow> string) \<Rightarrow> pyval \<Rightarrow> exn + string" where
  "format_receipt r receipt =
     and_then (fmt_get r receipt ''id'' (PStr ''N/A'')) (\<lambda>f_id.
     and_then (fmt_get r receipt ''name'' (PStr ''N/A'')) (\<lambda>f_name.
     and_then (fmt_get r receipt ''mimeType'' (PStr ''N/A'')) (\<lambda>f_mime.
     and_then (fmt_get r receipt ''size'' (PInt 0)) (\<lambda>f_size.
     and_then (fmt_get r receipt ''url'' (PStr ''N/A'')) (\<lambda>f_url.
       Inr (''Receipt Details:\<newline>\<newline>''
            @ ''ID: '' @ f_id @ ''\<newline>''
            @ ''Name: '' @ f_name @ ''\<newline>''
            @ ''MIME Type: '' @ f_mime @ ''\<newline>''
            @ ''Size: '' @ f_size @ '' KB\<newline>''
            @ ''Download URL: '' @ f_url @ ''\<newline>''
            @ ''(URL valid for 15 hours)\<newline>''))))))"

definition receipt_not_found :: "string \<Rightarrow> string \<Rightarrow> string" where
  "receipt_not_found expense_id receipt_id =
     ''Error: Receipt with ID '' @ receipt_id @ '' not found for expense '' @ expense_id"

definition get_expense_receipt_try :: "runtime \<Rightarrow> string \<Rightarrow> string \<Rightarrow> string run" where
  "get_expense_receipt_try rt expense_id receipt_id =
     run_then (no_io (get_client rt)) (\<lambda>client.
     run_then (client_get rt client
                 (''/expenses/'' @ expense_id @ ''/receipts/'' @ receipt_id) None)
       (\<lambda>receipt. no_io (format_receipt (py_repr rt) receipt)))"

definition get_expense_receipt :: "runtime \<Rightarrow> string \<Rightarrow> string \<Rightarrow> string run" where
  "get_expense_receipt rt expense_id receipt_id =
     except_exception ''getting receipt''
       (except_status ''getting receipt'' (receipt_not_found expense_id receipt_id)
         (get_expense_receipt_try rt expense_id receipt_id))"

section \<open>Sample runtimes\<close>

text \<open>
  A runtime with a given key whose upstream gives the same reply to every request; the
  \<^verbatim>\<open>repr\<close> of a container is not looked at in the examples below.
\<close>

definition sample_runtime :: "string option \<Rightarrow> reply \<Rightarrow> runtime" where
  "sample_runtime key rep =
     \<lparr> PLEO_API_KEY = key, upstream = (\<lambda>req. rep), py_repr = (\<lambda>v. ''<container>'') \<rparr>"

definition sample_response :: "int \<Rightarrow> string \<Rightarrow> pyval \<Rightarrow> reply" where
  "sample_response code text body =
     Reply \<lparr> status_code = code, error_text = text, json_content = Inr body \<rparr>"



section \<open>Properties\<close>

subsection \<open>Events and results of the building blocks\<close>

lemma http_calls_append: "http_calls (xs @ ys) = http_calls xs @ http_calls ys"
  by (induction xs rule: http_calls.induct) simp_all

lemma except_exception_calls:
  "http_calls (fst (except_exception what body)) = http_calls (fst body)"
  by (cases body; cases "snd body") (simp_all add: except_exception_def http_calls_append)

lemma except_status_calls:
  "http_calls (fst (except_status what nf body)) = http_calls (fst body)"
proof (cases body)
  case (Pair evs res)
  show ?thesis
  proof (cases res)
    case (Inl e)
    with Pair show ?thesis
      by (cases e) (simp_all add: except_status_def http_calls_append)
  next
    case (Inr s)
    with Pair show ?thesis by (simp add: except_status_def)
  qed
qed

lemma except_exception_result:
  "snd (except_exception what body) =
     (case snd body of
        Inr s \<Rightarrow> Inr s
      | Inl e \<Rightarrow> if is_Exception e then Inr (''Error: '' @ str_exn e) else Inl e)"
  by (cases body; cases "snd body") (simp_all add: except_exception_def)

lemma except_status_result:
  "snd (except_status what nf body) =
     (case snd body of
        Inl (HTTPStatusError c m) \<Rightarrow> Inr (if c = 404 then nf else ''Error: '' @ m)
      | other \<Rightarrow> other)"
proof (cases body)
  case (Pair evs res)
  show ?thesis
  proof (cases res)
    case (Inl e)
    with Pair show ?thesis
      by (cases e) (simp_all add: except_status_def)
  next
    case (Inr s)
    with Pair show ?thesis by (simp add: except_status_def)
  qed
qed

lemma run_then_client:
  "run_then (no_io (Inr client)) f = f client"
  by (cases "f client") (simp add: run_then_def no_io_def)

lemma run_then_no_client:
  "run_then (no_io (Inl e)) f = ([], Inl e)"
  by (simp add: run_then_def no_io_def)

lemma run_then_perform:
  "run_then (perform rt req) (\<lambda>x. no_io (g x)) =
     ([HttpCall req], and_then (snd (perform rt req)) g)"
  by (cases "snd (perform rt req)") (simp_all add: run_then_def no_io_def perform_def and_then_def)

lemma get_client_None: "PLEO_API_KEY rt = None \<Longrightarrow>
  get_client rt = Inl (ValueError ''PLEO_API_KEY environment variable is not set'')"
  by (simp add: get_client_def)

lemma perform_status_error:
  assumes "upstream rt req = Reply r" and "\<not> (200 \<le> status_code r \<and> status_code r \<le> 299)"
  shows "snd (perform rt req) = Inl (HTTPStatusError (status_code r) (error_text r))"
  using assms by (auto simp add: perform_def raise_for_status_def and_then_def)

lemma perform_success:
  assumes "upstream rt req = Reply r" and "200 \<le> status_code r" and "status_code r \<le> 299"
    and "json_content r = Inr body"
  shows "snd (perform rt req) = Inr body"
  using assms by (simp add: perform_def raise_for_status_def and_then_def response_json_def)

subsection \<open>The handlers, once the client exists\<close>

lemma list_expenses_with_client:
  assumes "get_client rt = Inr client"
  shows "list_expenses rt status expense_type from_date to_date limit =
     except_exception ''listing expenses''
       ([HttpCall (get_request client ''/expenses''
          (Some (list_expenses_params status expense_type from_date to_date limit)))],
        and_then (snd (perform rt (get_request client ''/expenses''
          (Some (list_expenses_params status expense_type from_date to_date limit)))))
          (format_expenses (py_repr rt)))"
  using assms
  by (simp add: list_expenses_def list_expenses_try_def run_then_client client_get_def run_then_perform)

lemma get_expense_with_client:
  assumes "get_client rt = Inr client"
  shows "get_expense rt expense_id =
     except_exception ''getting expense''
       (except_status ''getting expense'' (expense_not_found expense_id)
         ([HttpCall (get_request client (''/expenses/'' @ expense_id) None)],
          and_then (snd (perform rt (get_request client (''/expenses/'' @ expense_id) None)))
            (format_expense (py_repr rt))))"
  using assms
  by (simp add: get_expense_def get_expense_try_def run_then_client client_get_def run_then_perform)

lemma update_expense_with_client:
  assumes "get_client rt = Inr client"
  shows "update_expense rt expense_id note account_id tax_code_id =
     except_exception ''updating expense''
       (except_status ''updating expense'' (expense_not_found expense_id)
         (if update_data note account_id tax_code_id = [] then
            ([], Inr ''Error: No update fields provided. Please specify at least one field to update.'')
          else
            ([HttpCall (put_request client (''/expenses/'' @ expense_id)
                (update_data note account_id tax_code_id))],
             and_then (snd (perform rt (put_request client (''/expenses/'' @ expense_id)
                (update_data note account_id tax_code_id))))
               (\<lambda>result. Inr (''Successfully updated expense '' @ expense_id)))))"
  using assms
  by (simp add: update_expense_def update_expense_try_def run_then_client client_put_def
        run_then_perform)
     (simp add: no_io_def)

lemma get_expense_receipts_with_client:
  assumes "get_client rt = Inr client"
  shows "get_expense_receipts rt expense_id =
     except_exception ''getting receipts''
       (except_status ''getting receipts'' (expense_not_found expense_id)
         ([HttpCall (get_request client (''/expenses/'' @ expense_id @ ''/receipts'') None)],
          and_then (snd (perform rt
              (get_request client (''/expenses/'' @ expense_id @ ''/receipts'') None)))
            (format_receipts (py_repr rt) expense_id)))"
  using assms
  by (simp add: get_expense_receipts_def get_expense_receipts_try_def run_then_client client_get_def run_then_perform)

lemma get_expense_receipt_with_client:
  assumes "get_client rt = Inr client"
  shows "get_expense_receipt rt expense_id receipt_id =
     except_exception ''getting receipt''
       (except_status ''getting receipt'' (receipt_not_found expense_id receipt_id)
         ([HttpCall (get_request client
             (''/expenses/'' @ expense_id @ ''/receipts/'' @ receipt_id) None)],
          and_then (snd (perform rt (get_request client
             (''/expenses/'' @ expense_id @ ''/receipts/'' @ receipt_id) None)))
            (format_receipt (py_repr rt))))"
  using assms
  by (simp add: get_expense_receipt_def get_expense_receipt_try_def run_then_client client_get_def run_then_perform)

lemma sample_client:
  "get_client (sample_runtime (Some ''secret'') rep) = Inr (new_client ''secret'')"
  by (simp add: get_client_def sample_runtime_def)

subsection \<open>The requests as they are sent\<close>

lemma configured_client:
  "PLEO_API_KEY rt = Some k \<Longrightarrow> k \<noteq> [] \<Longrightarrow> get_client rt = Inr (new_client k)"
  by (simp add: get_client_def)

lemma get_request_sent:
  "get_request (new_client k) endpoint params =
     \<lparr> req_method = GET, req_url = ''https://openapi.pleo.io/v1'' @ endpoint,
       req_headers = [(''Authorization'', ''Bearer '' @ k),
                      (''Accept'', ''application/json''),
                      (''Content-Type'', ''application/json'')],
       req_params = params, req_json = None, req_timeout = 30 \<rparr>"
  by (simp add: get_request_def new_client_def PLEO_API_BASE_URL_def)

lemma put_request_sent:
  "put_request (new_client k) endpoint data =
     \<lparr> req_method = PUT, req_url = ''https://openapi.pleo.io/v1'' @ endpoint,
       req_headers = [(''Authorization'', ''Bearer '' @ k),
                      (''Accept'', ''application/json''),
                      (''Content-Type'', ''application/json'')],
       req_params = None, req_json = Some data, req_timeout = 30 \<rparr>"
  by (simp add: put_request_def new_client_def PLEO_API_BASE_URL_def)

lemma sample_key: "PLEO_API_KEY (sample_runtime (Some k) rep) = Some k"
  by (simp add: sample_runtime_def)

subsection \<open>The query of \<^verbatim>\<open>list_expenses\<close>\<close>

lemma limit_param:
  "map_of (list_expenses_params status expense_type from_date to_date limit) ''limit'' =
     Some (PInt (if 100 < limit then 100 else limit))"
  by (cases status; cases expense_type; cases from_date; cases to_date)
     (simp_all add: list_expenses_params_def update_conv')

lemma list_expenses_calls:
  assumes "get_client rt = Inr client"
  shows "http_calls (fst (list_expenses rt status expense_type from_date to_date limit)) =
     [get_request client ''/expenses''
        (Some (list_expenses_params status expense_type from_date to_date limit))]"
  by (simp add: list_expenses_with_client [OF assms] except_exception_calls)

text \<open>
  C2: with the API key configured, \<^verbatim>\<open>list_expenses\<close> makes one call, the GET of
  \<^verbatim>\<open>/expenses\<close>; the query parameters of that request are the ones the handler built,
  and the \<^verbatim>\<open>limit\<close> among them is 100 when the argument is above 100 and the argument
  itself otherwise, zero and negative numbers included. The last part reads the
  \<^verbatim>\<open>limit\<close> off the request that was sent.
\<close>

theorem list_expenses_limit_clamped:
  assumes "PLEO_API_KEY rt = Some k" and "k \<noteq> []"
  shows "http_calls (fst (list_expenses rt status expense_type from_date to_date limit)) =
           [\<lparr> req_method = GET, req_url = ''https://openapi.pleo.io/v1/expenses'',
               req_headers = [(''Authorization'', ''Bearer '' @ k),
                              (''Accept'', ''application/json''),
                              (''Content-Type'', ''application/json'')],
               req_params = Some (list_expenses_params status expense_type from_date to_date limit),
               req_json = None, req_timeout = 30 \<rparr>]
         \<and> map_of (list_expenses_params status expense_type from_date to_date limit) ''limit''
             = Some (PInt (if 100 < limit then 100 else limit))
         \<and> map (\<lambda>r. map_option (\<lambda>ps. map_of ps ''limit'') (req_params r))
               (http_calls (fst (list_expenses rt status expense_type from_date to_date limit)))
             = [Some (Some (PInt (if 100 < limit then 100 else limit)))]"
  using list_expenses_calls [OF configured_client [OF assms]] limit_param
  by (simp add: get_request_sent)

theorem list_expenses_limit_clamped_witness:
  "http_calls (fst (list_expenses (sample_runtime (Some ''secret'') (Failed ''timed out''))
        None None None None 250))
      = [\<lparr> req_method = GET, req_url = ''https://openapi.pleo.io/v1/expenses'',
               req_headers = [(''Authorization'', ''Bearer '' @ ''secret''),
                              (''Accept'', ''application/json''),
                              (''Content-Type'', ''application/json'')],
               req_params = Some [(''limit'', PInt 100)],
               req_json = None, req_timeout = 30 \<rparr>]
   \<and> http_calls (fst (list_expenses (sample_runtime (Some ''secret'') (Failed ''timed out''))
        None None None None (- 3)))
      = [\<lparr> req_method = GET, req_url = ''https://openapi.pleo.io/v1/expenses'',
               req_headers = [(''Authorization'', ''Bearer '' @ ''secret''),
                              (''Accept'', ''application/json''),
                              (''Content-Type'', ''application/json'')],
               req_params = Some [(''limit'', PInt (- 3))],
               req_json = None, req_timeout = 30 \<rparr>]"
proof -
  have key: "PLEO_API_KEY (sample_runtime (Some ''secret'') (Failed ''timed out'')) = Some ''secret''"
    by (rule sample_key)
  have set: "''secret'' \<noteq> []"
    by simp
  from list_expenses_limit_clamped [OF key set, of None None None None 250]
    list_expenses_limit_clamped [OF key set, of None None None None "- 3"]
  show ?thesis
    by (simp add: list_expenses_params_def)
qed

subsection \<open>The payload of \<^verbatim>\<open>update_expense\<close>\<close>

lemma update_data_fields:
  "update_data note account_id tax_code_id =
     (case note of None \<Rightarrow> [] | Some s \<Rightarrow> [(''note'', PStr s)])
     @ (case account_id of None \<Rightarrow> [] | Some s \<Rightarrow> [(''accountId'', PStr s)])
     @ (case tax_code_id of None \<Rightarrow> [] | Some s \<Rightarrow> [(''taxCodeId'', PStr s)])"
  by (cases "note"; cases account_id; cases tax_code_id) (simp_all add: update_data_def)

lemma update_expense_calls:
  assumes "get_client rt = Inr client"
  shows "http_calls (fst (update_expense rt expense_id note account_id tax_code_id)) =
     (if update_data note account_id tax_code_id = [] then []
      else [put_request client (''/expenses/'' @ expense_id)
              (update_data note account_id tax_code_id)])"
  by (simp add: update_expense_with_client [OF assms] except_exception_calls except_status_calls)

text \<open>
  C3: with the API key configured, the only call \<^verbatim>\<open>update_expense\<close> ever makes is the PUT
  of \<^verbatim>\<open>/expenses/{id}\<close>, and the JSON body of that request holds one entry for each of
  \<^verbatim>\<open>note\<close>, \<^verbatim>\<open>account_id\<close>, \<^verbatim>\<open>tax_code_id\<close> that is not \<^verbatim>\<open>None\<close>, under the keys
  \<^verbatim>\<open>note\<close>, \<^verbatim>\<open>accountId\<close>, \<^verbatim>\<open>taxCodeId\<close>, and nothing else; an argument given as the
  empty string is in the body, with the empty string as its value.
\<close>

theorem update_expense_payload:
  assumes "PLEO_API_KEY rt = Some k" and "k \<noteq> []"
  shows "http_calls (fst (update_expense rt expense_id note account_id tax_code_id)) =
           (if note = None \<and> account_id = None \<and> tax_code_id = None then []
            else [\<lparr> req_method = PUT, req_url = ''https://openapi.pleo.io/v1/expenses/'' @ expense_id,
               req_headers = [(''Authorization'', ''Bearer '' @ k),
                              (''Accept'', ''application/json''),
                              (''Content-Type'', ''application/json'')],
               req_params = None,
               req_json = Some ((case note of None \<Rightarrow> [] | Some s \<Rightarrow> [(''note'', PStr s)])
                         @ (case account_id of None \<Rightarrow> []
                            | Some s \<Rightarrow> [(''accountId'', PStr s)])
                         @ (case tax_code_id of None \<Rightarrow> []
                            | Some s \<Rightarrow> [(''taxCodeId'', PStr s)])), req_timeout = 30 \<rparr>])
         \<and> update_data note account_id tax_code_id =
             (case note of None \<Rightarrow> [] | Some s \<Rightarrow> [(''note'', PStr s)])
             @ (case account_id of None \<Rightarrow> [] | Some s \<Rightarrow> [(''accountId'', PStr s)])
             @ (case tax_code_id of None \<Rightarrow> [] | Some s \<Rightarrow> [(''taxCodeId'', PStr s)])
         \<and> update_data (Some []) account_id tax_code_id =
             (''note'', PStr [])
             # (case account_id of None \<Rightarrow> [] | Some s \<Rightarrow> [(''accountId'', PStr s)])
             @ (case tax_code_id of None \<Rightarrow> [] | Some s \<Rightarrow> [(''taxCodeId'', PStr s)])"
proof -
  have none: "(update_data note account_id tax_code_id = [])
      = (note = None \<and> account_id = None \<and> tax_code_id = None)"
    by (cases "note"; cases account_id; cases tax_code_id) (simp_all add: update_data_def)
  show ?thesis
    using update_expense_calls [OF configured_client [OF assms]]
    by (simp only: none put_request_sent) (simp add: update_data_fields)
qed

theorem update_expense_payload_witness:
  "http_calls (fst (update_expense (sample_runtime (Some ''secret'') (Failed ''timed out''))
        ''e1'' (Some []) None (Some ''tax-7'')))
      = [\<lparr> req_method = PUT, req_url = ''https://openapi.pleo.io/v1/expenses/e1'',
               req_headers = [(''Authorization'', ''Bearer '' @ ''secret''),
                              (''Accept'', ''application/json''),
                              (''Content-Type'', ''application/json'')],
               req_params = None,
               req_json = Some [(''note'', PStr []), (''taxCodeId'', PStr ''tax-7'')], req_timeout = 30 \<rparr>]"
proof -
  have key: "PLEO_API_KEY (sample_runtime (Some ''secret'') (Failed ''timed out'')) = Some ''secret''"
    by (rule sample_key)
  have set: "''secret'' \<noteq> []"
    by simp
  from update_expense_payload [OF key set, of "''e1''" "Some []" None "Some ''tax-7''"]
  show ?thesis
    by simp
qed

subsection \<open>No fields to update\<close>

lemma update_data_empty: "update_data None None None = []"
  by (simp add: update_data_def)

lemma update_expense_no_fields_run:
  "update_expense rt expense_id None None None =
     (case get_client rt of
        Inr client \<Rightarrow>
          ([], Inr ''Error: No update fields provided. Please specify at least one field to update.'')
      | Inl e \<Rightarrow>
          ([LogError (''Error updating expense: '' @ str_exn e)], Inr (''Error: '' @ str_exn e)))"
proof (cases "get_client rt")
  case (Inl e)
  then show ?thesis
    by (cases e)
       (simp_all add: update_expense_def update_expense_try_def run_then_no_client
          except_status_def except_exception_def get_client_def split: option.splits if_splits)
next
  case (Inr client)
  then show ?thesis
    by (simp add: update_expense_with_client [OF Inr] update_data_empty except_status_def
          except_exception_def)
qed

text \<open>
  Without a key the client is asked for first, so a call with no field to update is
  answered with the configuration error, not with the validation message.
\<close>

theorem update_expense_no_fields_counterexample:
  "snd (update_expense (sample_runtime None (Failed ''timed out'')) ''e1'' None None None)
     = Inr ''Error: PLEO_API_KEY environment variable is not set''
   \<and> snd (update_expense (sample_runtime None (Failed ''timed out'')) ''e1'' None None None)
     \<noteq> Inr ''Error: No update fields provided. Please specify at least one field to update.''"
  by (simp add: update_expense_no_fields_run get_client_def sample_runtime_def)

text \<open>
  C4, as the code has it: a call of \<^verbatim>\<open>update_expense\<close> with none of \<^verbatim>\<open>note\<close>,
  \<^verbatim>\<open>account_id\<close>, \<^verbatim>\<open>tax_code_id\<close> given makes no HTTP call at all; it returns the
  validation message when the API key is configured, and the configuration error when it
  is not.
\<close>

theorem update_expense_no_fields:
  "http_calls (fst (update_expense rt expense_id None None None)) = []
   \<and> snd (update_expense rt expense_id None None None) =
       Inr (case get_client rt of
              Inr client \<Rightarrow>
                ''Error: No update fields provided. Please specify at least one field to update.''
            | Inl e \<Rightarrow> ''Error: PLEO_API_KEY environment variable is not set'')"
  by (simp add: update_expense_no_fields_run get_client_def split: option.splits)

theorem update_expense_no_fields_witness:
  "http_calls (fst (update_expense
      (sample_runtime (Some ''secret'') (Failed ''timed out'')) ''e1'' None None None)) = []
   \<and> snd (update_expense
      (sample_runtime (Some ''secret'') (Failed ''timed out'')) ''e1'' None None None)
     = Inr ''Error: No update fields provided. Please specify at least one field to update.''"
  using update_expense_no_fields [of "sample_runtime (Some ''secret'') (Failed ''timed out'')" "''e1''"]
  by (simp add: sample_client)

subsection \<open>A missing API key\<close>

lemma no_client_run:
  "except_exception what (except_status what nf ([], Inl (ValueError m))) =
     ([LogError (''Error '' @ what @ '': '' @ m)], Inr (''Error: '' @ m))"
  by (simp add: except_status_def except_exception_def)

lemma no_client_run_list:
  "except_exception what ([], Inl (ValueError m)) =
     ([LogError (''Error '' @ what @ '': '' @ m)], Inr (''Error: '' @ m))"
  by (simp add: except_exception_def)

lemma handlers_without_key:
  assumes "PLEO_API_KEY rt = None"
  shows "list_expenses rt status expense_type from_date to_date limit =
           ([LogError ''Error listing expenses: PLEO_API_KEY environment variable is not set''],
            Inr ''Error: PLEO_API_KEY environment variable is not set'')"
    and "get_expense rt expense_id =
           ([LogError ''Error getting expense: PLEO_API_KEY environment variable is not set''],
            Inr ''Error: PLEO_API_KEY environment variable is not set'')"
    and "update_expense rt expense_id note account_id tax_code_id =
           ([LogError ''Error updating expense: PLEO_API_KEY environment variable is not set''],
            Inr ''Error: PLEO_API_KEY environment variable is not set'')"
    and "get_expense_receipts rt expense_id =
           ([LogError ''Error getting receipts: PLEO_API_KEY environment variable is not set''],
            Inr ''Error: PLEO_API_KEY environment variable is not set'')"
    and "get_expense_receipt rt expense_id receipt_id =
           ([LogError ''Error getting receipt: PLEO_API_KEY environment variable is not set''],
            Inr ''Error: PLEO_API_KEY environment variable is not set'')"
  unfolding list_expenses_def get_expense_def update_expense_def get_expense_receipts_def
    get_expense_receipt_def list_expenses_try_def get_expense_try_def update_expense_try_def
    get_expense_receipts_try_def get_expense_receipt_try_def
    get_client_None [OF assms] run_then_no_client no_client_run no_client_run_list
  by simp_all

text \<open>
  C7: when the environment holds no API key, the module's start logs a warning and does
  nothing else, and each of the five handlers, asked for anything, makes no HTTP call and
  returns the text of the configuration error.
\<close>

theorem missing_key_reported:
  assumes "PLEO_API_KEY rt = None"
  shows "module_init rt = [LogWarning ''PLEO_API_KEY environment variable not set'']
    \<and> http_calls (fst (list_expenses rt status expense_type from_date to_date limit)) = []
    \<and> snd (list_expenses rt status expense_type from_date to_date limit)
        = Inr ''Error: PLEO_API_KEY environment variable is not set''
    \<and> http_calls (fst (get_expense rt expense_id)) = []
    \<and> snd (get_expense rt expense_id)
        = Inr ''Error: PLEO_API_KEY environment variable is not set''
    \<and> http_calls (fst (update_expense rt expense_id note account_id tax_code_id)) = []
    \<and> snd (update_expense rt expense_id note account_id tax_code_id)
        = Inr ''Error: PLEO_API_KEY environment variable is not set''
    \<and> http_calls (fst (get_expense_receipts rt expense_id)) = []
    \<and> snd (get_expense_receipts rt expense_id)
        = Inr ''Error: PLEO_API_KEY environment variable is not set''
    \<and> http_calls (fst (get_expense_receipt rt expense_id receipt_id)) = []
    \<and> snd (get_expense_receipt rt expense_id receipt_id)
        = Inr ''Error: PLEO_API_KEY environment variable is not set''"
  unfolding handlers_without_key [OF assms]
  using assms by (simp add: module_init_def)

lemma sample_no_key: "PLEO_API_KEY (sample_runtime None rep) = None"
  by (simp add: sample_runtime_def)

theorem missing_key_reported_witness:
  "PLEO_API_KEY (sample_runtime None (sample_response 200 [] (PDict []))) = None
   \<and> http_calls (fst (get_expense (sample_runtime None (sample_response 200 [] (PDict []))) ''e1'')) = []
   \<and> snd (get_expense (sample_runtime None (sample_response 200 [] (PDict []))) ''e1'')
       = Inr ''Error: PLEO_API_KEY environment variable is not set''
   \<and> http_calls (fst (update_expense (sample_runtime None (sample_response 200 [] (PDict [])))
         ''e1'' (Some ''lunch'') None None)) = []
   \<and> snd (update_expense (sample_runtime None (sample_response 200 [] (PDict [])))
         ''e1'' (Some ''lunch'') None None)
       = Inr ''Error: PLEO_API_KEY environment variable is not set''"
  using missing_key_reported [OF sample_no_key, of "sample_response 200 [] (PDict [])"
      None None None None 50 "''e1''" "Some ''lunch''" None None "''r1''"]
    sample_no_key [of "sample_response 200 [] (PDict [])"]
  by simp

subsection \<open>An upstream 404\<close>

lemma status_404_raises:
  assumes "upstream rt req = Reply r" and "status_code r = 404"
  shows "snd (perform rt req) = Inl (HTTPStatusError 404 (error_text r))"
  using perform_status_error [OF assms(1)] assms(2) by simp

lemma not_found_result:
  "snd (except_exception what
          (except_status what nf (evs, and_then (Inl (HTTPStatusError 404 m)) g))) = Inr nf"
  by (simp add: except_exception_result except_status_result and_then_def)

lemma status_error_unclassified:
  "snd (except_exception what (evs, and_then (Inl (HTTPStatusError c m)) g)) =
     Inr (''Error: '' @ m)"
  by (simp add: except_exception_result and_then_def)

text \<open>
  C6: when the upstream answers the GET of \<^verbatim>\<open>/expenses/{expense_id}\<close> with status 404,
  \<^verbatim>\<open>get_expense\<close> returns (it does not raise) the not-found message, which holds the
  requested id as it was given.
\<close>

theorem get_expense_not_found:
  assumes "get_client rt = Inr client"
    and "upstream rt (get_request client (''/expenses/'' @ expense_id) None) = Reply r"
    and "status_code r = 404"
  shows "snd (get_expense rt expense_id) =
           Inr (''Error: Expense with ID '' @ expense_id @ '' not found'')"
  by (simp only: get_expense_with_client [OF assms(1)] status_404_raises [OF assms(2,3)]
        not_found_result expense_not_found_def)

lemma sample_upstream: "upstream (sample_runtime key rep) req = rep"
  by (simp add: sample_runtime_def)

theorem get_expense_not_found_witness:
  "snd (get_expense (sample_runtime (Some ''secret'') (sample_response 404 ''404 Not Found'' PNone))
          ''abc-123'')
     = Inr ''Error: Expense with ID abc-123 not found''"
proof -
  let ?r = "\<lparr> status_code = 404, error_text = ''404 Not Found'', json_content = Inr PNone \<rparr>"
  let ?rt = "sample_runtime (Some ''secret'') (Reply ?r)"
  have key: "get_client ?rt = Inr (new_client ''secret'')"
    by (rule sample_client)
  have reply: "upstream ?rt (get_request (new_client ''secret'') (''/expenses/'' @ ''abc-123'') None)
                 = Reply ?r"
    by (rule sample_upstream)
  have code: "status_code ?r = 404"
    by simp
  from get_expense_not_found [OF key reply code] show ?thesis
    by (simp add: sample_response_def)
qed

text \<open>
  \<^verbatim>\<open>list_expenses\<close> has no clause for \<^verbatim>\<open>HTTPStatusError\<close>: a 404 from the upstream comes
  back as the text of the error, like any other failure.
\<close>

theorem list_expenses_404_counterexample:
  "snd (list_expenses (sample_runtime (Some ''secret'') (sample_response 404 ''404 Not Found'' PNone))
          None None None None 50)
     = Inr ''Error: 404 Not Found''"
proof -
  let ?r = "\<lparr> status_code = 404, error_text = ''404 Not Found'', json_content = Inr PNone \<rparr>"
  let ?rt = "sample_runtime (Some ''secret'') (Reply ?r)"
  have raised: "snd (perform ?rt req) = Inl (HTTPStatusError 404 (error_text ?r))" for req
    by (rule status_404_raises [OF sample_upstream]) simp
  have "snd (list_expenses ?rt None None None None 50) = Inr (''Error: '' @ error_text ?r)"
    by (simp only: list_expenses_with_client [OF sample_client] raised status_error_unclassified)
  then show ?thesis
    by (simp add: sample_response_def)
qed

lemma status_error_result:
  "snd (except_exception what
          (except_status what nf (evs, and_then (Inl (HTTPStatusError c m)) g))) =
     Inr (if c = 404 then nf else ''Error: '' @ m)"
  by (simp add: except_exception_result except_status_result and_then_def)

text \<open>
  C5, as the code has it: with a client at hand, when the upstream answers a handler's
  request with a status outside 200..299, each of the four handlers that name an expense
  returns its own not-found message if the status is 404, whatever the text of the error
  is, and \<^verbatim>\<open>Error: \<close> followed by the text of the error if the status is any other
  (\<^verbatim>\<open>update_expense\<close> when it has a field to send); \<^verbatim>\<open>list_expenses\<close> returns
  \<^verbatim>\<open>Error: \<close> followed by the text of the error for every such status, 404 included.
\<close>

theorem not_found_classified:
  assumes "get_client rt = Inr client"
  shows "(\<forall>r. upstream rt (get_request client (''/expenses/'' @ expense_id) None) = Reply r
            \<and> \<not> (200 \<le> status_code r \<and> status_code r \<le> 299)
          \<longrightarrow> snd (get_expense rt expense_id) =
                Inr (if status_code r = 404
                     then ''Error: Expense with ID '' @ expense_id @ '' not found''
                     else ''Error: '' @ error_text r))
    \<and> (\<forall>r. update_data note account_id tax_code_id \<noteq> []
            \<and> upstream rt (put_request client (''/expenses/'' @ expense_id)
                  (update_data note account_id tax_code_id)) = Reply r
            \<and> \<not> (200 \<le> status_code r \<and> status_code r \<le> 299)
          \<longrightarrow> snd (update_expense rt expense_id note account_id tax_code_id) =
                Inr (if status_code r = 404
                     then ''Error: Expense with ID '' @ expense_id @ '' not found''
                     else ''Error: '' @ error_text r))
    \<and> (\<forall>r. upstream rt (get_request client (''/expenses/'' @ expense_id @ ''/receipts'') None)
              = Reply r
            \<and> \<not> (200 \<le> status_code r \<and> status_code r \<le> 299)
          \<longrightarrow> snd (get_expense_receipts rt expense_id) =
                Inr (if status_code r = 404
                     then ''Error: Expense with ID '' @ expense_id @ '' not found''
                     else ''Error: '' @ error_text r))
    \<and> (\<forall>r. upstream rt (get_request client
                  (''/expenses/'' @ expense_id @ ''/receipts/'' @ receipt_id) None) = Reply r
            \<and> \<not> (200 \<le> status_code r \<and> status_code r \<le> 299)
          \<longrightarrow> snd (get_expense_receipt rt expense_id receipt_id) =
                Inr (if status_code r = 404
                     then ''Error: Receipt with ID '' @ receipt_id @ '' not found for expense ''
                          @ expense_id
                     else ''Error: '' @ error_text r))
    \<and> (\<forall>r. upstream rt (get_request client ''/expenses''
                  (Some (list_expenses_params status expense_type from_date to_date limit)))
              = Reply r
            \<and> \<not> (200 \<le> status_code r \<and> status_code r \<le> 299)
          \<longrightarrow> snd (list_expenses rt status expense_type from_date to_date limit) =
                Inr (''Error: '' @ error_text r))"
proof (intro conjI allI impI)
  fix r
  assume "upstream rt (get_request client (''/expenses/'' @ expense_id) None) = Reply r
            \<and> \<not> (200 \<le> status_code r \<and> status_code r \<le> 299)"
  then have "snd (perform rt (get_request client (''/expenses/'' @ expense_id) None))
      = Inl (HTTPStatusError (status_code r) (error_text r))"
    by (elim conjE) (rule perform_status_error, assumption+)
  then show "snd (get_expense rt expense_id) =
                Inr (if status_code r = 404
                     then ''Error: Expense with ID '' @ expense_id @ '' not found''
                     else ''Error: '' @ error_text r)"
    by (simp only: get_expense_with_client [OF assms] status_error_result expense_not_found_def)
next
  fix r
  assume *: "update_data note account_id tax_code_id \<noteq> []
            \<and> upstream rt (put_request client (''/expenses/'' @ expense_id)
                  (update_data note account_id tax_code_id)) = Reply r
            \<and> \<not> (200 \<le> status_code r \<and> status_code r \<le> 299)"
  then have "snd (perform rt (put_request client (''/expenses/'' @ expense_id)
                  (update_data note account_id tax_code_id)))
      = Inl (HTTPStatusError (status_code r) (error_text r))"
    by (elim conjE) (rule perform_status_error, assumption+)
  with * show "snd (update_expense rt expense_id note account_id tax_code_id) =
                Inr (if status_code r = 404
                     then ''Error: Expense with ID '' @ expense_id @ '' not found''
                     else ''Error: '' @ error_text r)"
    by (simp only: update_expense_with_client [OF assms] if_False status_error_result
          expense_not_found_def)
next
  fix r
  assume "upstream rt (get_request client (''/expenses/'' @ expense_id @ ''/receipts'') None)
              = Reply r
            \<and> \<not> (200 \<le> status_code r \<and> status_code r \<le> 299)"
  then have "snd (perform rt (get_request client (''/expenses/'' @ expense_id @ ''/receipts'') None))
      = Inl (HTTPStatusError (status_code r) (error_text r))"
    by (elim conjE) (rule perform_status_error, assumption+)
  then show "snd (get_expense_receipts rt expense_id) =
                Inr (if status_code r = 404
                     then ''Error: Expense with ID '' @ expense_id @ '' not found''
                     else ''Error: '' @ error_text r)"
    by (simp only: get_expense_receipts_with_client [OF assms] status_error_result
          expense_not_found_def)
next
  fix r
  assume "upstream rt (get_request client
                  (''/expenses/'' @ expense_id @ ''/receipts/'' @ receipt_id) None) = Reply r
            \<and> \<not> (200 \<le> status_code r \<and> status_code r \<le> 299)"
  then have "snd (perform rt (get_request client
                  (''/expenses/'' @ expense_id @ ''/receipts/'' @ receipt_id) None))
      = Inl (HTTPStatusError (status_code r) (error_text r))"
    by (elim conjE) (rule perform_status_error, assumption+)
  then show "snd (get_expense_receipt rt expense_id receipt_id) =
                Inr (if status_code r = 404
                     then ''Error: Receipt with ID '' @ receipt_id @ '' not found for expense ''
                          @ expense_id
                     else ''Error: '' @ error_text r)"
    by (simp only: get_expense_receipt_with_client [OF assms] status_error_result
          receipt_not_found_def)
next
  fix r
  assume "upstream rt (get_request client ''/expenses''
                  (Some (list_expenses_params status expense_type from_date to_date limit)))
              = Reply r
            \<and> \<not> (200 \<le> status_code r \<and> status_code r \<le> 299)"
  then have "snd (perform rt (get_request client ''/expenses''
                  (Some (list_expenses_params status expense_type from_date to_date limit))))
      = Inl (HTTPStatusError (status_code r) (error_text r))"
    by (elim conjE) (rule perform_status_error, assumption+)
  then show "snd (list_expenses rt status expense_type from_date to_date limit) =
                Inr (''Error: '' @ error_text r)"
    by (simp only: list_expenses_with_client [OF assms] status_error_unclassified)
qed

theorem not_found_classified_witness:
  "snd (get_expense_receipt
          (sample_runtime (Some ''secret'') (sample_response 404 ''404 Not Found'' PNone))
          ''e1'' ''r9'')
     = Inr ''Error: Receipt with ID r9 not found for expense e1''
   \<and> snd (get_expense_receipt
          (sample_runtime (Some ''secret'') (sample_response 500 ''500 Internal Server Error'' PNone))
          ''e1'' ''r9'')
     = Inr ''Error: 500 Internal Server Error''
   \<and> snd (update_expense
          (sample_runtime (Some ''secret'') (sample_response 404 ''404 Not Found'' PNone))
          ''e1'' (Some ''lunch'') None None)
     = Inr ''Error: Expense with ID e1 not found''
   \<and> snd (update_expense
          (sample_runtime (Some ''secret'') (sample_response 403 ''403 Forbidden'' PNone))
          ''e1'' (Some ''lunch'') None None)
     = Inr ''Error: 403 Forbidden''
   \<and> snd (list_expenses
          (sample_runtime (Some ''secret'') (sample_response 404 ''404 Not Found'' PNone))
          (Some ''QUEUED'') None None None 5)
     = Inr ''Error: 404 Not Found''"
proof -
  have fields: "update_data (Some ''lunch'') None None \<noteq> []"
    by (simp add: update_data_def)
  note at_404 = not_found_classified [OF sample_client,
      of "sample_response 404 ''404 Not Found'' PNone" "''e1''" "Some ''lunch''" None None
         "''r9''" "Some ''QUEUED''" None None None 5]
  note at_500 = not_found_classified [OF sample_client,
      of "sample_response 500 ''500 Internal Server Error'' PNone" "''e1''" "Some ''lunch''"
         None None "''r9''" "Some ''QUEUED''" None None None 5]
  note at_403 = not_found_classified [OF sample_client,
      of "sample_response 403 ''403 Forbidden'' PNone" "''e1''" "Some ''lunch''"
         None None "''r9''" "Some ''QUEUED''" None None None 5]
  from at_404 at_500 at_403 fields show ?thesis
    by (simp add: sample_upstream sample_response_def)
qed

subsection \<open>The filters of \<^verbatim>\<open>list_expenses\<close>\<close>

lemma list_expenses_params_fields:
  "list_expenses_params status expense_type from_date to_date limit =
     [(''limit'', PInt (min limit 100))]
     @ (case status of None \<Rightarrow> [] | Some s \<Rightarrow> if s = [] then [] else [(''status'', PStr s)])
     @ (case expense_type of None \<Rightarrow> [] | Some s \<Rightarrow> if s = [] then [] else [(''type'', PStr s)])
     @ (case from_date of None \<Rightarrow> []
        | Some s \<Rightarrow> if s = [] then [] else [(''performedAtFrom'', PStr s)])
     @ (case to_date of None \<Rightarrow> []
        | Some s \<Rightarrow> if s = [] then [] else [(''performedAtTo'', PStr s)])"
  unfolding list_expenses_params_def
  by (cases status; cases expense_type; cases from_date; cases to_date) simp_all

lemma list_expenses_params_keys:
  "fst ` set (list_expenses_params status expense_type from_date to_date limit) =
     {''limit''}
     \<union> (if truthy_opt status then {''status''} else {})
     \<union> (if truthy_opt expense_type then {''type''} else {})
     \<union> (if truthy_opt from_date then {''performedAtFrom''} else {})
     \<union> (if truthy_opt to_date then {''performedAtTo''} else {})"
  unfolding list_expenses_params_fields
  by (cases status; cases expense_type; cases from_date; cases to_date) auto


text \<open>
  An argument given as the empty string counts as not given: \<^verbatim>\<open>status=""\<close> sends a query
  with \<^verbatim>\<open>limit\<close> alone, without a \<^verbatim>\<open>status\<close> key.
\<close>

theorem list_expenses_filters_counterexample:
  "http_calls (fst (list_expenses (sample_runtime (Some ''secret'') (Failed ''timed out''))
      (Some []) None None None 50))
   = [\<lparr> req_method = GET, req_url = ''https://openapi.pleo.io/v1/expenses'',
               req_headers = [(''Authorization'', ''Bearer '' @ ''secret''),
                              (''Accept'', ''application/json''),
                              (''Content-Type'', ''application/json'')],
               req_params = Some [(''limit'', PInt 50)],
               req_json = None, req_timeout = 30 \<rparr>]"
  by (simp add: list_expenses_calls [OF sample_client] list_expenses_params_def get_request_sent)

text \<open>
  C8, as the code has it: with the API key configured, the query parameters of the one
  request \<^verbatim>\<open>list_expenses\<close> sends are \<^verbatim>\<open>limit\<close> and then, in this order, \<^verbatim>\<open>status\<close>,
  \<^verbatim>\<open>type\<close>, \<^verbatim>\<open>performedAtFrom\<close>, \<^verbatim>\<open>performedAtTo\<close>, each present exactly when \<^verbatim>\<open>status\<close>,
  \<^verbatim>\<open>expense_type\<close>, \<^verbatim>\<open>from_date\<close>, \<^verbatim>\<open>to_date\<close> was given and is not the empty string, with
  the argument as its value; there is no other key.
\<close>

theorem list_expenses_filters:
  assumes "PLEO_API_KEY rt = Some k" and "k \<noteq> []"
  shows "http_calls (fst (list_expenses rt status expense_type from_date to_date limit)) =
           [\<lparr> req_method = GET, req_url = ''https://openapi.pleo.io/v1/expenses'',
               req_headers = [(''Authorization'', ''Bearer '' @ k),
                              (''Accept'', ''application/json''),
                              (''Content-Type'', ''application/json'')],
               req_params = Some ([(''limit'', PInt (min limit 100))]
                   @ (case status of None \<Rightarrow> []
                      | Some s \<Rightarrow> if s = [] then [] else [(''status'', PStr s)])
                   @ (case expense_type of None \<Rightarrow> []
                      | Some s \<Rightarrow> if s = [] then [] else [(''type'', PStr s)])
                   @ (case from_date of None \<Rightarrow> []
                      | Some s \<Rightarrow> if s = [] then [] else [(''performedAtFrom'', PStr s)])
                   @ (case to_date of None \<Rightarrow> []
                      | Some s \<Rightarrow> if s = [] then [] else [(''performedAtTo'', PStr s)])),
               req_json = None, req_timeout = 30 \<rparr>]
    \<and> fst ` set (list_expenses_params status expense_type from_date to_date limit) =
         {''limit''}
         \<union> (if truthy_opt status then {''status''} else {})
         \<union> (if truthy_opt expense_type then {''type''} else {})
         \<union> (if truthy_opt from_date then {''performedAtFrom''} else {})
         \<union> (if truthy_opt to_date then {''performedAtTo''} else {})
    \<and> list_expenses_params status expense_type from_date to_date limit =
         [(''limit'', PInt (min limit 100))]
         @ (case status of None \<Rightarrow> []
            | Some s \<Rightarrow> if s = [] then [] else [(''status'', PStr s)])
         @ (case expense_type of None \<Rightarrow> []
            | Some s \<Rightarrow> if s = [] then [] else [(''type'', PStr s)])
         @ (case from_date of None \<Rightarrow> []
            | Some s \<Rightarrow> if s = [] then [] else [(''performedAtFrom'', PStr s)])
         @ (case to_date of None \<Rightarrow> []
            | Some s \<Rightarrow> if s = [] then [] else [(''performedAtTo'', PStr s)])"
proof (intro conjI)
  show "http_calls (fst (list_expenses rt status expense_type from_date to_date limit)) =
           [\<lparr> req_method = GET, req_url = ''https://openapi.pleo.io/v1/expenses'',
               req_headers = [(''Authorization'', ''Bearer '' @ k),
                              (''Accept'', ''application/json''),
                              (''Content-Type'', ''application/json'')],
               req_params = Some ([(''limit'', PInt (min limit 100))]
                   @ (case status of None \<Rightarrow> []
                      | Some s \<Rightarrow> if s = [] then [] else [(''status'', PStr s)])
                   @ (case expense_type of None \<Rightarrow> []
                      | Some s \<Rightarrow> if s = [] then [] else [(''type'', PStr s)])
                   @ (case from_date of None \<Rightarrow> []
                      | Some s \<Rightarrow> if s = [] then [] else [(''performedAtFrom'', PStr s)])
                   @ (case to_date of None \<Rightarrow> []
                      | Some s \<Rightarrow> if s = [] then [] else [(''performedAtTo'', PStr s)])),
               req_json = None, req_timeout = 30 \<rparr>]"
    using list_expenses_calls [OF configured_client [OF assms]]
    by (simp only: get_request_sent list_expenses_params_fields) simp
qed (rule list_expenses_params_keys list_expenses_params_fields)+

theorem list_expenses_filters_witness:
  "http_calls (fst (list_expenses (sample_runtime (Some ''secret'') (Failed ''timed out''))
      (Some ''QUEUED'') None (Some ''2024-01-01'') (Some []) 5))
   = [\<lparr> req_method = GET, req_url = ''https://openapi.pleo.io/v1/expenses'',
               req_headers = [(''Authorization'', ''Bearer '' @ ''secret''),
                              (''Accept'', ''application/json''),
                              (''Content-Type'', ''application/json'')],
               req_params = Some [(''limit'', PInt 5), (''status'', PStr ''QUEUED''),
                                 (''performedAtFrom'', PStr ''2024-01-01'')],
               req_json = None, req_timeout = 30 \<rparr>]"
proof -
  have key: "PLEO_API_KEY (sample_runtime (Some ''secret'') (Failed ''timed out'')) = Some ''secret''"
    by (rule sample_key)
  have set: "''secret'' \<noteq> []"
    by simp
  from list_expenses_filters [OF key set, of "Some ''QUEUED''" None "Some ''2024-01-01''" "Some []" 5]
  show ?thesis
    by simp
qed

subsection \<open>No expenses\<close>

text \<open>
  C9: when the upstream answers the GET of \<^verbatim>\<open>/expenses\<close> with a 2xx status and an object
  whose \<^verbatim>\<open>data\<close> is the empty list, or that has no \<^verbatim>\<open>data\<close> at all, \<^verbatim>\<open>list_expenses\<close>
  returns the no-results message and nothing else: no count line, no expense lines.
\<close>

theorem list_expenses_no_results:
  assumes "get_client rt = Inr client"
    and "upstream rt (get_request client ''/expenses''
            (Some (list_expenses_params status expense_type from_date to_date limit))) = Reply r"
    and "200 \<le> status_code r" and "status_code r \<le> 299"
    and "json_content r = Inr (PDict d)"
    and "map_of d ''data'' = None \<or> map_of d ''data'' = Some (PList [])"
  shows "snd (list_expenses rt status expense_type from_date to_date limit) =
           Inr ''No expenses found matching the criteria.''"
proof -
  have body: "snd (perform rt (get_request client ''/expenses''
            (Some (list_expenses_params status expense_type from_date to_date limit))))
          = Inr (PDict d)"
    by (rule perform_success [OF assms(2-5)])
  have "dict_get d ''data'' (PList []) = PList []"
    using assms(6) by (auto simp add: dict_get_def)
  then have "format_expenses (py_repr rt) (PDict d) = Inr ''No expenses found matching the criteria.''"
    by (simp add: format_expenses_def py_get_def and_then_def)
  then show ?thesis
    by (simp only: list_expenses_with_client [OF assms(1)] body except_exception_result
          and_then_def snd_conv sum.case)
qed

theorem list_expenses_no_results_witness:
  "snd (list_expenses (sample_runtime (Some ''secret'')
          (sample_response 200 [] (PDict [(''data'', PList [])]))) None None None None 50)
     = Inr ''No expenses found matching the criteria.''
   \<and> snd (list_expenses (sample_runtime (Some ''secret'')
          (sample_response 200 [] (PDict [(''total'', PInt 0)]))) None None None None 50)
     = Inr ''No expenses found matching the criteria.''"
proof -
  let ?r1 = "\<lparr> status_code = 200, error_text = [],
               json_content = Inr (PDict [(''data'', PList [])]) \<rparr>"
  let ?r2 = "\<lparr> status_code = 200, error_text = [],
               json_content = Inr (PDict [(''total'', PInt 0)]) \<rparr>"
  have one: "snd (list_expenses (sample_runtime (Some ''secret'') (Reply ?r1))
                None None None None 50) = Inr ''No expenses found matching the criteria.''"
    by (rule list_expenses_no_results [OF sample_client sample_upstream, where d = "[(''data'', PList [])]"])
       simp_all
  have two: "snd (list_expenses (sample_runtime (Some ''secret'') (Reply ?r2))
                None None None None 50) = Inr ''No expenses found matching the criteria.''"
    by (rule list_expenses_no_results [OF sample_client sample_upstream, where d = "[(''total'', PInt 0)]"])
       simp_all
  from one two show ?thesis
    by (simp add: sample_response_def)
qed

subsection \<open>Empty objects in an expense\<close>

lemma dict_get_delete_other:
  "key \<noteq> k \<Longrightarrow> dict_get (AList.delete k d) key dflt = dict_get d key dflt"
  by (simp add: dict_get_def)

lemma dict_get_delete_empty:
  "map_of d k = Some dflt \<Longrightarrow> dict_get (AList.delete k d) k dflt = dict_get d k dflt"
  by (simp add: dict_get_def delete_conv')

lemma format_expense_amount_settled:
  assumes "map_of d ''amountSettled'' = Some (PDict [])"
  shows "format_expense r (PDict (AList.delete ''amountSettled'' d)) = format_expense r (PDict d)"
  by (simp add: format_expense_def fmt_get_def py_get_def dict_get_delete_other
        dict_get_delete_empty [OF assms])

lemma format_expense_card_transaction:
  assumes "map_of d ''cardTransaction'' = Some (PDict [])"
  shows "format_expense r (PDict (AList.delete ''cardTransaction'' d)) = format_expense r (PDict d)"
  by (simp add: format_expense_def fmt_get_def py_get_def dict_get_delete_other
        dict_get_delete_empty [OF assms])

lemma format_expense_empty_object:
  assumes "k = ''amountSettled'' \<or> k = ''cardTransaction''" and "map_of d k = Some (PDict [])"
  shows "format_expense r (PDict (AList.delete k d)) = format_expense r (PDict d)"
  using assms format_expense_amount_settled format_expense_card_transaction by blast

lemma get_client_upstream: "get_client (rt\<lparr>upstream := u\<rparr>) = get_client rt"
  by (simp add: get_client_def)

lemma get_expense_fixed_reply:
  "get_expense (rt\<lparr>upstream := \<lambda>req. Reply (resp\<lparr>json_content := Inr body\<rparr>)\<rparr>) expense_id =
     (case get_client rt of
        Inl e \<Rightarrow> get_expense rt expense_id
      | Inr client \<Rightarrow>
          except_exception ''getting expense''
            (except_status ''getting expense'' (expense_not_found expense_id)
              ([HttpCall (get_request client (''/expenses/'' @ expense_id) None)],
               and_then (raise_for_status resp) (\<lambda>u. format_expense (py_repr rt) body))))"
proof (cases "get_client rt")
  case (Inl e)
  then show ?thesis
    by (simp add: get_expense_def get_expense_try_def get_client_upstream run_then_no_client)
next
  case (Inr client)
  let ?rt = "rt\<lparr>upstream := \<lambda>req. Reply (resp\<lparr>json_content := Inr body\<rparr>)\<rparr>"
  have client: "get_client ?rt = Inr client"
    using Inr by (simp add: get_client_upstream)
  have sent: "snd (perform ?rt req) = and_then (raise_for_status resp) (\<lambda>u. Inr body)" for req
    by (simp add: perform_def raise_for_status_def response_json_def and_then_def)
  have "and_then (and_then (raise_for_status resp) (\<lambda>u. Inr body)) (format_expense (py_repr ?rt))
      = and_then (raise_for_status resp) (\<lambda>u. format_expense (py_repr rt) body)"
    by (simp add: and_then_def split: sum.splits)
  then show ?thesis
    by (simp only: get_expense_with_client [OF client] sent Inr sum.case)
qed

lemma format_expense_layout:
  assumes "dict_get d ''amountOriginal'' (PDict []) = PDict a"
    and "receipt_ids_text (dict_get d ''receiptIds'' (PList [])) = Inr rs"
    and "settled_line r (dict_get d ''amountSettled'' (PDict [])) = Inr ls"
    and "card_transaction_lines r (dict_get d ''cardTransaction'' (PDict [])) = Inr lc"
  shows "format_expense r (PDict d) =
     Inr (''Expense Details:\<newline>\<newline>''
          @ ''ID: '' @ py_str r (dict_get d ''id'' (PStr ''N/A'')) @ ''\<newline>''
          @ ''Employee ID: '' @ py_str r (dict_get d ''employeeId'' (PStr ''N/A'')) @ ''\<newline>''
          @ ''Employee Code: '' @ py_str r (dict_get d ''employeeCode'' (PStr ''N/A'')) @ ''\<newline>''
          @ ''Department ID: '' @ py_str r (dict_get d ''departmentId'' (PStr ''N/A'')) @ ''\<newline>''
          @ ''Performed At: '' @ py_str r (dict_get d ''performedAt'' (PStr ''N/A'')) @ ''\<newline>''
          @ ''Original Amount: '' @ py_str r (dict_get a ''value'' (PInt 0)) @ '' ''
            @ py_str r (dict_get a ''currency'' (PStr ''N/A'')) @ ''\<newline>''
          @ ls
          @ ''Note: '' @ py_str r (dict_get d ''note'' (PStr ''No note'')) @ ''\<newline>''
          @ ''Type: '' @ py_str r (dict_get d ''type'' (PStr ''N/A'')) @ ''\<newline>''
          @ ''Status: '' @ py_str r (dict_get d ''status'' (PStr ''N/A'')) @ ''\<newline>''
          @ ''Account ID: '' @ py_str r (dict_get d ''accountId'' (PStr ''N/A'')) @ ''\<newline>''
          @ ''Tax Code ID: '' @ py_str r (dict_get d ''taxCodeId'' (PStr ''N/A'')) @ ''\<newline>''
          @ ''Receipt IDs: '' @ rs @ ''\<newline>''
          @ lc
          @ ''\<newline>Created At: '' @ py_str r (dict_get d ''createdAt'' (PStr ''N/A'')) @ ''\<newline>''
          @ ''Updated At: '' @ py_str r (dict_get d ''updatedAt'' (PStr ''N/A'')) @ ''\<newline>'')"
  by (simp add: format_expense_def fmt_get_def py_get_def and_then_def assms)

lemma empty_object_default:
  "map_of d k = None \<or> map_of d k = Some (PDict []) \<Longrightarrow> dict_get d k (PDict []) = PDict []"
  by (auto simp add: dict_get_def)

lemma settled_line_omitted:
  assumes "map_of d ''amountSettled'' = None \<or> map_of d ''amountSettled'' = Some (PDict [])"
    and "settled_line r (dict_get d ''amountSettled'' (PDict [])) = Inr ls"
  shows "ls = []"
  using assms(2) by (simp add: empty_object_default [OF assms(1)] settled_line_def)

lemma card_transaction_omitted:
  assumes "map_of d ''cardTransaction'' = None \<or> map_of d ''cardTransaction'' = Some (PDict [])"
    and "card_transaction_lines r (dict_get d ''cardTransaction'' (PDict [])) = Inr lc"
  shows "lc = []"
  using assms(2) by (simp add: empty_object_default [OF assms(1)] card_transaction_lines_def)

lemma get_expense_rendered:
  assumes "get_client rt = Inr client"
    and "200 \<le> status_code resp" and "status_code resp \<le> 299"
    and "format_expense (py_repr rt) body = Inr text"
  shows "snd (get_expense (rt\<lparr>upstream := \<lambda>req. Reply (resp\<lparr>json_content := Inr body\<rparr>)\<rparr>) expense_id)
           = Inr text"
  using assms
  by (simp add: get_expense_fixed_reply raise_for_status_def and_then_def
        except_status_result except_exception_result)


text \<open>
  C10: \<^verbatim>\<open>get_expense\<close> renders an expense whose \<^verbatim>\<open>amountSettled\<close> or \<^verbatim>\<open>cardTransaction\<close>
  is the empty object exactly as the same expense without that field: the whole run is the
  same, result and events. And in what it returns for a payload it can render, the Note
  line comes right after the Original Amount line when \<^verbatim>\<open>amountSettled\<close> is missing or
  the empty object, and the Created At line right after the Receipt IDs line when
  \<^verbatim>\<open>cardTransaction\<close> is missing or the empty object: no Settled Amount line, no Card
  Transaction block; otherwise the lines of the field stand there.
\<close>

theorem get_expense_empty_object_as_missing:
  "((k = ''amountSettled'' \<or> k = ''cardTransaction'') \<and> map_of d k = Some (PDict [])
      \<longrightarrow> get_expense (rt\<lparr>upstream := \<lambda>req. Reply (resp\<lparr>json_content := Inr (PDict d)\<rparr>)\<rparr>)
              expense_id
          = get_expense
              (rt\<lparr>upstream := \<lambda>req. Reply (resp\<lparr>json_content := Inr (PDict (AList.delete k d))\<rparr>)\<rparr>)
              expense_id)
   \<and> (get_client rt = Inr client
        \<and> 200 \<le> status_code resp \<and> status_code resp \<le> 299
        \<and> dict_get d ''amountOriginal'' (PDict []) = PDict a
        \<and> receipt_ids_text (dict_get d ''receiptIds'' (PList [])) = Inr rs
        \<and> settled_line (py_repr rt) (dict_get d ''amountSettled'' (PDict [])) = Inr ls
        \<and> card_transaction_lines (py_repr rt) (dict_get d ''cardTransaction'' (PDict [])) = Inr lc
      \<longrightarrow> snd (get_expense (rt\<lparr>upstream := \<lambda>req. Reply (resp\<lparr>json_content := Inr (PDict d)\<rparr>)\<rparr>)
                expense_id)
          = Inr (''Expense Details:\<newline>\<newline>''
                @ ''ID: '' @ py_str (py_repr rt) (dict_get d ''id'' (PStr ''N/A'')) @ ''\<newline>''
                @ ''Employee ID: '' @ py_str (py_repr rt) (dict_get d ''employeeId'' (PStr ''N/A''))
                  @ ''\<newline>''
                @ ''Employee Code: '' @ py_str (py_repr rt) (dict_get d ''employeeCode'' (PStr ''N/A''))
                  @ ''\<newline>''
                @ ''Department ID: '' @ py_str (py_repr rt) (dict_get d ''departmentId'' (PStr ''N/A''))
                  @ ''\<newline>''
                @ ''Performed At: '' @ py_str (py_repr rt) (dict_get d ''performedAt'' (PStr ''N/A''))
                  @ ''\<newline>''
                @ ''Original Amount: '' @ py_str (py_repr rt) (dict_get a ''value'' (PInt 0)) @ '' ''
                  @ py_str (py_repr rt) (dict_get a ''currency'' (PStr ''N/A'')) @ ''\<newline>''
                @ (if map_of d ''amountSettled'' = None
                      \<or> map_of d ''amountSettled'' = Some (PDict []) then [] else ls)
                @ ''Note: '' @ py_str (py_repr rt) (dict_get d ''note'' (PStr ''No note''))
                  @ ''\<newline>''
                @ ''Type: '' @ py_str (py_repr rt) (dict_get d ''type'' (PStr ''N/A'')) @ ''\<newline>''
                @ ''Status: '' @ py_str (py_repr rt) (dict_get d ''status'' (PStr ''N/A''))
                  @ ''\<newline>''
                @ ''Account ID: '' @ py_str (py_repr rt) (dict_get d ''accountId'' (PStr ''N/A''))
                  @ ''\<newline>''
                @ ''Tax Code ID: '' @ py_str (py_repr rt) (dict_get d ''taxCodeId'' (PStr ''N/A''))
                  @ ''\<newline>''
                @ ''Receipt IDs: '' @ rs @ ''\<newline>''
                @ (if map_of d ''cardTransaction'' = None
                      \<or> map_of d ''cardTransaction'' = Some (PDict []) then [] else lc)
                @ ''\<newline>Created At: ''
                  @ py_str (py_repr rt) (dict_get d ''createdAt'' (PStr ''N/A'')) @ ''\<newline>''
                @ ''Updated At: '' @ py_str (py_repr rt) (dict_get d ''updatedAt'' (PStr ''N/A''))
                  @ ''\<newline>''))"
proof (intro conjI impI)
  assume "(k = ''amountSettled'' \<or> k = ''cardTransaction'') \<and> map_of d k = Some (PDict [])"
  then have "format_expense (py_repr rt) (PDict (AList.delete k d))
      = format_expense (py_repr rt) (PDict d)"
    by (elim conjE) (rule format_expense_empty_object)
  then show "get_expense (rt\<lparr>upstream := \<lambda>req. Reply (resp\<lparr>json_content := Inr (PDict d)\<rparr>)\<rparr>)
              expense_id
          = get_expense
              (rt\<lparr>upstream := \<lambda>req. Reply (resp\<lparr>json_content := Inr (PDict (AList.delete k d))\<rparr>)\<rparr>)
              expense_id"
    by (simp only: get_expense_fixed_reply)
next
  assume *: "get_client rt = Inr client
        \<and> 200 \<le> status_code resp \<and> status_code resp \<le> 299
        \<and> dict_get d ''amountOriginal'' (PDict []) = PDict a
        \<and> receipt_ids_text (dict_get d ''receiptIds'' (PList [])) = Inr rs
        \<and> settled_line (py_repr rt) (dict_get d ''amountSettled'' (PDict [])) = Inr ls
        \<and> card_transaction_lines (py_repr rt) (dict_get d ''cardTransaction'' (PDict [])) = Inr lc"
  then have settled: "settled_line (py_repr rt) (dict_get d ''amountSettled'' (PDict [])) = Inr ls"
    and card: "card_transaction_lines (py_repr rt) (dict_get d ''cardTransaction'' (PDict [])) = Inr lc"
    by simp_all
  have no_settled: "(if map_of d ''amountSettled'' = None
      \<or> map_of d ''amountSettled'' = Some (PDict []) then [] else ls) = ls"
    using settled_line_omitted [OF _ settled] by simp
  have no_card: "(if map_of d ''cardTransaction'' = None
      \<or> map_of d ''cardTransaction'' = Some (PDict []) then [] else lc) = lc"
    using card_transaction_omitted [OF _ card] by simp
  from * have rendered: "format_expense (py_repr rt) (PDict d) =
     Inr (''Expense Details:\<newline>\<newline>''
          @ ''ID: '' @ py_str (py_repr rt) (dict_get d ''id'' (PStr ''N/A'')) @ ''\<newline>''
          @ ''Employee ID: '' @ py_str (py_repr rt) (dict_get d ''employeeId'' (PStr ''N/A'')) @ ''\<newline>''
          @ ''Employee Code: '' @ py_str (py_repr rt) (dict_get d ''employeeCode'' (PStr ''N/A'')) @ ''\<newline>''
          @ ''Department ID: '' @ py_str (py_repr rt) (dict_get d ''departmentId'' (PStr ''N/A'')) @ ''\<newline>''
          @ ''Performed At: '' @ py_str (py_repr rt) (dict_get d ''performedAt'' (PStr ''N/A'')) @ ''\<newline>''
          @ ''Original Amount: '' @ py_str (py_repr rt) (dict_get a ''value'' (PInt 0)) @ '' ''
            @ py_str (py_repr rt) (dict_get a ''currency'' (PStr ''N/A'')) @ ''\<newline>''
          @ ls
          @ ''Note: '' @ py_str (py_repr rt) (dict_get d ''note'' (PStr ''No note'')) @ ''\<newline>''
          @ ''Type: '' @ py_str (py_repr rt) (dict_get d ''type'' (PStr ''N/A'')) @ ''\<newline>''
          @ ''Status: '' @ py_str (py_repr rt) (dict_get d ''status'' (PStr ''N/A'')) @ ''\<newline>''
          @ ''Account ID: '' @ py_str (py_repr rt) (dict_get d ''accountId'' (PStr ''N/A'')) @ ''\<newline>''
          @ ''Tax Code ID: '' @ py_str (py_repr rt) (dict_get d ''taxCodeId'' (PStr ''N/A'')) @ ''\<newline>''
          @ ''Receipt IDs: '' @ rs @ ''\<newline>''
          @ lc
          @ ''\<newline>Created At: '' @ py_str (py_repr rt) (dict_get d ''createdAt'' (PStr ''N/A'')) @ ''\<newline>''
          @ ''Updated At: '' @ py_str (py_repr rt) (dict_get d ''updatedAt'' (PStr ''N/A'')) @ ''\<newline>'')"
    by (elim conjE) (rule format_expense_layout)
  from * have "get_client rt = Inr client" and "200 \<le> status_code resp"
    and "status_code resp \<le> 299"
    by simp_all
  from get_expense_rendered [OF this rendered]
  show "snd (get_expense (rt\<lparr>upstream := \<lambda>req. Reply (resp\<lparr>json_content := Inr (PDict d)\<rparr>)\<rparr>)
                expense_id)
          = Inr (''Expense Details:\<newline>\<newline>''
                @ ''ID: '' @ py_str (py_repr rt) (dict_get d ''id'' (PStr ''N/A'')) @ ''\<newline>''
                @ ''Employee ID: '' @ py_str (py_repr rt) (dict_get d ''employeeId'' (PStr ''N/A''))
                  @ ''\<newline>''
                @ ''Employee Code: '' @ py_str (py_repr rt) (dict_get d ''employeeCode'' (PStr ''N/A''))
                  @ ''\<newline>''
                @ ''Department ID: '' @ py_str (py_repr rt) (dict_get d ''departmentId'' (PStr ''N/A''))
                  @ ''\<newline>''
                @ ''Performed At: '' @ py_str (py_repr rt) (dict_get d ''performedAt'' (PStr ''N/A''))
                  @ ''\<newline>''
                @ ''Original Amount: '' @ py_str (py_repr rt) (dict_get a ''value'' (PInt 0)) @ '' ''
                  @ py_str (py_repr rt) (dict_get a ''currency'' (PStr ''N/A'')) @ ''\<newline>''
                @ (if map_of d ''amountSettled'' = None
                      \<or> map_of d ''amountSettled'' = Some (PDict []) then [] else ls)
                @ ''Note: '' @ py_str (py_repr rt) (dict_get d ''note'' (PStr ''No note''))
                  @ ''\<newline>''
                @ ''Type: '' @ py_str (py_repr rt) (dict_get d ''type'' (PStr ''N/A'')) @ ''\<newline>''
                @ ''Status: '' @ py_str (py_repr rt) (dict_get d ''status'' (PStr ''N/A''))
                  @ ''\<newline>''
                @ ''Account ID: '' @ py_str (py_repr rt) (dict_get d ''accountId'' (PStr ''N/A''))
                  @ ''\<newline>''
                @ ''Tax Code ID: '' @ py_str (py_repr rt) (dict_get d ''taxCodeId'' (PStr ''N/A''))
                  @ ''\<newline>''
                @ ''Receipt IDs: '' @ rs @ ''\<newline>''
                @ (if map_of d ''cardTransaction'' = None
                      \<or> map_of d ''cardTransaction'' = Some (PDict []) then [] else lc)
                @ ''\<newline>Created At: ''
                  @ py_str (py_repr rt) (dict_get d ''createdAt'' (PStr ''N/A'')) @ ''\<newline>''
                @ ''Updated At: '' @ py_str (py_repr rt) (dict_get d ''updatedAt'' (PStr ''N/A''))
                  @ ''\<newline>'')"
    by (simp only: no_settled no_card)
qed

theorem get_expense_empty_object_as_missing_witness:
  "get_expense (sample_runtime (Some ''secret'')
       (sample_response 200 [] (PDict [(''id'', PStr ''e1''), (''amountSettled'', PDict [])]))) ''e1''
   = get_expense (sample_runtime (Some ''secret'')
       (sample_response 200 [] (PDict [(''id'', PStr ''e1'')]))) ''e1''
   \<and> snd (get_expense (sample_runtime (Some ''secret'')
       (sample_response 200 [] (PDict [(''id'', PStr ''e1''), (''amountSettled'', PDict [])]))) ''e1'')
   = Inr (''Expense Details:\<newline>\<newline>''
          @ ''ID: e1\<newline>''
          @ ''Employee ID: N/A\<newline>''
          @ ''Employee Code: N/A\<newline>''
          @ ''Department ID: N/A\<newline>''
          @ ''Performed At: N/A\<newline>''
          @ ''Original Amount: 0 N/A\<newline>''
          @ ''Note: No note\<newline>''
          @ ''Type: N/A\<newline>''
          @ ''Status: N/A\<newline>''
          @ ''Account ID: N/A\<newline>''
          @ ''Tax Code ID: N/A\<newline>''
          @ ''Receipt IDs: None\<newline>''
          @ ''\<newline>Created At: N/A\<newline>''
          @ ''Updated At: N/A\<newline>'')"
proof -
  let ?d = "[(''id'', PStr ''e1''), (''amountSettled'', PDict [])]"
  let ?resp = "\<lparr> status_code = 200, error_text = [], json_content = Inr PNone \<rparr>"
  let ?rt = "sample_runtime (Some ''secret'') (Failed [])"
  have a: "?rt\<lparr>upstream := \<lambda>req. Reply (?resp\<lparr>json_content := Inr (PDict ?d)\<rparr>)\<rparr>
           = sample_runtime (Some ''secret'') (sample_response 200 [] (PDict ?d))"
    by (simp add: sample_runtime_def sample_response_def)
  have b: "?rt\<lparr>upstream := \<lambda>req. Reply (?resp\<lparr>json_content :=
              Inr (PDict (AList.delete ''amountSettled'' ?d))\<rparr>)\<rparr>
           = sample_runtime (Some ''secret'') (sample_response 200 [] (PDict [(''id'', PStr ''e1'')]))"
    by (simp add: sample_runtime_def sample_response_def AList.delete_eq)
  have zero: "str_int 0 = ''0''"
    by code_simp
  have fields: "get_client ?rt = Inr (new_client ''secret'')"
      "dict_get ?d ''amountOriginal'' (PDict []) = PDict []"
      "receipt_ids_text (dict_get ?d ''receiptIds'' (PList [])) = Inr ''None''"
      "settled_line (py_repr ?rt) (dict_get ?d ''amountSettled'' (PDict [])) = Inr []"
      "card_transaction_lines (py_repr ?rt) (dict_get ?d ''cardTransaction'' (PDict [])) = Inr []"
    by (simp_all add: sample_client dict_get_def receipt_ids_text_def settled_line_def
          card_transaction_lines_def)
  note at_sample = get_expense_empty_object_as_missing
         [where rt = ?rt and resp = ?resp and expense_id = "''e1''" and d = ?d
            and k = "''amountSettled''" and client = "new_client ''secret''" and a = "[]"
            and rs = "''None''" and ls = "[]" and lc = "[]", unfolded a b]
  from at_sample [THEN conjunct1]
  have same: "get_expense (sample_runtime (Some ''secret'')
       (sample_response 200 [] (PDict ?d))) ''e1''
     = get_expense (sample_runtime (Some ''secret'')
       (sample_response 200 [] (PDict [(''id'', PStr ''e1'')]))) ''e1''"
    by simp
  from at_sample [THEN conjunct2] fields
  have shown: "snd (get_expense (sample_runtime (Some ''secret'')
       (sample_response 200 [] (PDict ?d))) ''e1'')
     = Inr (''Expense Details:\<newline>\<newline>''
          @ ''ID: e1\<newline>''
          @ ''Employee ID: N/A\<newline>''
          @ ''Employee Code: N/A\<newline>''
          @ ''Department ID: N/A\<newline>''
          @ ''Performed At: N/A\<newline>''
          @ ''Original Amount: 0 N/A\<newline>''
          @ ''Note: No note\<newline>''
          @ ''Type: N/A\<newline>''
          @ ''Status: N/A\<newline>''
          @ ''Account ID: N/A\<newline>''
          @ ''Tax Code ID: N/A\<newline>''
          @ ''Receipt IDs: None\<newline>''
          @ ''\<newline>Created At: N/A\<newline>''
          @ ''Updated At: N/A\<newline>'')"
    by (simp add: dict_get_def zero)
  from same shown show ?thesis
    by (rule conjI)
qed

subsection \<open>What the bodies can raise\<close>




































subsection \<open>Failures and the caller\<close>






end
